theory Spec2Isabelle
  imports Main "HOL-Library.Word"
begin

unbundle bit_operations_syntax

section \<open>The AST of the C-like compiler (ast.hpp)\<close>

text \<open>
  The development embeds the abstract syntax tree of \<^verbatim>\<open>ast.hpp\<close>: the class
  hierarchy under \<^verbatim>\<open>Statement\<close> becomes a family of datatypes with one
  constructor for each concrete node class, every C++ constructor becomes a function
  that returns either the node or the error the constructor raises, and the methods
  that are written out in the header become functions over the nodes.
\<close>

subsection \<open>Locations, symbol types, errors\<close>

text \<open>
  Modelled from the spec: \<^verbatim>\<open>Location\<close> and its \<^verbatim>\<open>operator+\<close> are
  declared in \<^verbatim>\<open>translation.hpp\<close>, which is not among the sources. A location is a
  source span (file name, start line and column, end line and column); two locations
  compose by taking the minimum start and the maximum end.
\<close>

type_synonym position = "nat \<times> nat"

record Location =
  filename :: string
  begin_position :: position
  end_position :: position

definition position_le :: "position \<Rightarrow> position \<Rightarrow> bool" where
  "position_le p q = (fst p < fst q \<or> (fst p = fst q \<and> snd p \<le> snd q))"

definition Location_plus :: "Location \<Rightarrow> Location \<Rightarrow> Location" where
  "Location_plus a b =
     \<lparr> filename = filename a,
       begin_position =
         (if position_le (begin_position a) (begin_position b)
          then begin_position a else begin_position b),
       end_position =
         (if position_le (end_position a) (end_position b)
          then end_position b else end_position a) \<rparr>"

text \<open>
  Modelled from the spec: \<^verbatim>\<open>SymbolType\<close> is declared in
  \<^verbatim>\<open>translation.hpp\<close>. It is a tagged variant over Int, Array (element type and
  length), Bool, Void and String.
\<close>

datatype SymbolType =
    IntType
  | ArrayType SymbolType nat
  | BoolType
  | VoidType
  | StringType

text \<open>
  The three ways a call into the AST can fail: a \<^verbatim>\<open>CompileError\<close> (a location and
  a message, the user-facing kind), a \<^verbatim>\<open>std::domain_error\<close> (with its message), and
  a failed \<^verbatim>\<open>assert(false)\<close>.
\<close>

datatype error =
    CompileError Location string
  | domain_error string
  | AssertionFailure

fun is_CompileError :: "error + 'a \<Rightarrow> bool" where
  "is_CompileError (Inl (CompileError loc msg)) = True"
| "is_CompileError r = False"

subsection \<open>Expressions\<close>

text \<open>
  A C++ \<^verbatim>\<open>int\<close> is a 32-bit two's complement integer.
\<close>

type_synonym i32 = "32 word"

text \<open>
  \<^verbatim>\<open>ValueExpression\<close> and \<^verbatim>\<open>BooleanExpression\<close> are the two categories of
  expression; \<^verbatim>\<open>LValueExpression\<close> is the subclass of \<^verbatim>\<open>ValueExpression\<close>
  with the two subclasses \<^verbatim>\<open>VariableExpression\<close> and
  \<^verbatim>\<open>ArrayAccessExpression\<close>. A node stores its operator as a string and its
  location last; the children are stored in their coerced category, as the fields'
  static types (\<^verbatim>\<open>shared_ptr<ValueExpression>\<close>,
  \<^verbatim>\<open>shared_ptr<BooleanExpression>\<close>, \<^verbatim>\<open>shared_ptr<LValueExpression>\<close>) say.
  The classes \<^verbatim>\<open>Expression\<close>, \<^verbatim>\<open>ValueExpression\<close>,
  \<^verbatim>\<open>BooleanExpression\<close> and \<^verbatim>\<open>LValueExpression\<close> are concrete: each has a
  public constructor that takes a location, and no method of the hierarchy is pure
  virtual. An instance of such a class itself is therefore a node too, the first
  constructor of each datatype; its \<^verbatim>\<open>Compile\<close>, \<^verbatim>\<open>Evaluate\<close> and
  \<^verbatim>\<open>Assign\<close> are the \<^verbatim>\<open>assert(false)\<close> defaults.
\<close>

datatype ValueExpression =
    ValueExpression Location
  | ValueCast BooleanExpression
  | UnaryValueExpression string ValueExpression Location
  | BinaryValueExpression string ValueExpression ValueExpression Location
  | ConstantExpression i32 Location
  | LValue LValueExpression
  | AssignmentExpression LValueExpression ValueExpression Location
  | FunctionCallExpression string "ValueExpression list" Location
and LValueExpression =
    LValueExpression Location
  | VariableExpression string Location
  | ArrayAccessExpression string ValueExpression Location
and BooleanExpression =
    BooleanExpression Location
  | BooleanCast ValueExpression
  | UnaryBooleanExpression string BooleanExpression Location
  | BinaryBooleanExpression string BooleanExpression BooleanExpression Location
  | RelationalExpression string ValueExpression ValueExpression Location

text \<open>
  \<^verbatim>\<open>StringLiteral\<close> derives from \<^verbatim>\<open>Expression\<close> directly: it is neither a
  value expression nor a boolean expression.
\<close>

datatype StringLiteral = StringLiteral string Location

text \<open>
  A \<^verbatim>\<open>shared_ptr<Expression>\<close>, as the constructors receive it, with the dynamic
  category that \<^verbatim>\<open>dynamic_pointer_cast\<close> tests. An instance of \<^verbatim>\<open>Expression\<close>
  itself, like a string literal, is of neither category.
\<close>

datatype Expression =
    Expression Location
  | Value ValueExpression
  | Boolean BooleanExpression
  | StringExpression StringLiteral

text \<open>
  The \<^verbatim>\<open>location\<close> field. A cast has the location of the expression it wraps (its
  constructor passes \<^verbatim>\<open>exp->location\<close> to the base class).
\<close>

fun LValueExpression_location :: "LValueExpression \<Rightarrow> Location" where
  "LValueExpression_location (LValueExpression loc) = loc"
| "LValueExpression_location (VariableExpression name loc) = loc"
| "LValueExpression_location (ArrayAccessExpression name index loc) = loc"

fun ValueExpression_location :: "ValueExpression \<Rightarrow> Location"
  and BooleanExpression_location :: "BooleanExpression \<Rightarrow> Location" where
  "ValueExpression_location (ValueExpression loc) = loc"
| "ValueExpression_location (ValueCast exp) = BooleanExpression_location exp"
| "ValueExpression_location (UnaryValueExpression op exp loc) = loc"
| "ValueExpression_location (BinaryValueExpression op exp1 exp2 loc) = loc"
| "ValueExpression_location (ConstantExpression v loc) = loc"
| "ValueExpression_location (LValue lv) = LValueExpression_location lv"
| "ValueExpression_location (AssignmentExpression left exp loc) = loc"
| "ValueExpression_location (FunctionCallExpression name args loc) = loc"
| "BooleanExpression_location (BooleanExpression loc) = loc"
| "BooleanExpression_location (BooleanCast exp) = ValueExpression_location exp"
| "BooleanExpression_location (UnaryBooleanExpression op exp loc) = loc"
| "BooleanExpression_location (BinaryBooleanExpression op exp1 exp2 loc) = loc"
| "BooleanExpression_location (RelationalExpression op exp1 exp2 loc) = loc"

fun Expression_location :: "Expression \<Rightarrow> Location" where
  "Expression_location (Expression loc) = loc"
| "Expression_location (Value v) = ValueExpression_location v"
| "Expression_location (Boolean b) = BooleanExpression_location b"
| "Expression_location (StringExpression (StringLiteral s loc)) = loc"

subsection \<open>The coercion helpers\<close>

text \<open>
  \<^verbatim>\<open>ValueCast::IfNeeded\<close> and \<^verbatim>\<open>BooleanCast::IfNeeded\<close>: the first
  \<^verbatim>\<open>dynamic_pointer_cast\<close> that succeeds decides; an expression of neither
  category reaches \<^verbatim>\<open>assert(false)\<close>.
\<close>

fun ValueCast_IfNeeded :: "Expression \<Rightarrow> error + ValueExpression" where
  "ValueCast_IfNeeded (Value v) = Inr v"
| "ValueCast_IfNeeded (Boolean b) = Inr (ValueCast b)"
| "ValueCast_IfNeeded (StringExpression s) = Inl AssertionFailure"
| "ValueCast_IfNeeded (Expression loc) = Inl AssertionFailure"

fun BooleanCast_IfNeeded :: "Expression \<Rightarrow> error + BooleanExpression" where
  "BooleanCast_IfNeeded (Boolean b) = Inr b"
| "BooleanCast_IfNeeded (Value v) = Inr (BooleanCast v)"
| "BooleanCast_IfNeeded (StringExpression s) = Inl AssertionFailure"
| "BooleanCast_IfNeeded (Expression loc) = Inl AssertionFailure"

subsection \<open>Constructors of the expression nodes\<close>

text \<open>
  Each function follows its C++ constructor: the member initialisers run first, in the
  order of the member declarations (so the coercion of the children comes before the
  test of the operator in the constructor's body), and the body throws
  \<^verbatim>\<open>std::domain_error("invalid operator")\<close> for an operator outside the node's set.
\<close>

definition new_UnaryValueExpression ::
  "string \<Rightarrow> Expression \<Rightarrow> Location \<Rightarrow> error + ValueExpression" where
  "new_UnaryValueExpression op exp loc =
     (case ValueCast_IfNeeded exp of
        Inl e \<Rightarrow> Inl e
      | Inr v \<Rightarrow>
          if op \<noteq> ''+'' \<and> op \<noteq> ''-'' \<and> op \<noteq> ''~''
          then Inl (domain_error ''invalid operator'')
          else Inr (UnaryValueExpression op v (Location_plus loc (Expression_location exp))))"

definition new_BinaryValueExpression ::
  "string \<Rightarrow> Expression \<Rightarrow> Expression \<Rightarrow> error + ValueExpression" where
  "new_BinaryValueExpression op exp1 exp2 =
     (case ValueCast_IfNeeded exp1 of
        Inl e \<Rightarrow> Inl e
      | Inr v1 \<Rightarrow>
          (case ValueCast_IfNeeded exp2 of
             Inl e \<Rightarrow> Inl e
           | Inr v2 \<Rightarrow>
               if op \<noteq> ''+'' \<and> op \<noteq> ''-'' \<and> op \<noteq> ''*'' \<and> op \<noteq> ''/''
                  \<and> op \<noteq> ''&'' \<and> op \<noteq> ''|'' \<and> op \<noteq> ''^''
               then Inl (domain_error ''invalid operator'')
               else Inr (BinaryValueExpression op v1 v2
                      (Location_plus (Expression_location exp1) (Expression_location exp2)))))"

definition new_ConstantExpression :: "i32 \<Rightarrow> Location \<Rightarrow> ValueExpression" where
  "new_ConstantExpression v loc = ConstantExpression v loc"

definition new_VariableExpression :: "string \<Rightarrow> Location \<Rightarrow> LValueExpression" where
  "new_VariableExpression name loc = VariableExpression name loc"

definition new_ArrayAccessExpression ::
  "string \<Rightarrow> Expression \<Rightarrow> Location \<Rightarrow> error + LValueExpression" where
  "new_ArrayAccessExpression name index loc =
     (case ValueCast_IfNeeded index of
        Inl e \<Rightarrow> Inl e
      | Inr v \<Rightarrow> Inr (ArrayAccessExpression name v loc))"

definition new_AssignmentExpression ::
  "LValueExpression \<Rightarrow> Expression \<Rightarrow> error + ValueExpression" where
  "new_AssignmentExpression left exp =
     (case ValueCast_IfNeeded exp of
        Inl e \<Rightarrow> Inl e
      | Inr v \<Rightarrow>
          Inr (AssignmentExpression left v
                 (Location_plus (LValueExpression_location left) (Expression_location exp))))"

definition new_UnaryBooleanExpression ::
  "string \<Rightarrow> Expression \<Rightarrow> Location \<Rightarrow> error + BooleanExpression" where
  "new_UnaryBooleanExpression op exp loc =
     (case BooleanCast_IfNeeded exp of
        Inl e \<Rightarrow> Inl e
      | Inr b \<Rightarrow>
          if op \<noteq> ''!''
          then Inl (domain_error ''invalid operator'')
          else Inr (UnaryBooleanExpression op b (Location_plus loc (Expression_location exp))))"

definition new_BinaryBooleanExpression ::
  "string \<Rightarrow> Expression \<Rightarrow> Expression \<Rightarrow> error + BooleanExpression" where
  "new_BinaryBooleanExpression op exp1 exp2 =
     (case BooleanCast_IfNeeded exp1 of
        Inl e \<Rightarrow> Inl e
      | Inr b1 \<Rightarrow>
          (case BooleanCast_IfNeeded exp2 of
             Inl e \<Rightarrow> Inl e
           | Inr b2 \<Rightarrow>
               if op \<noteq> ''&&'' \<and> op \<noteq> ''||''
               then Inl (domain_error ''invalid operator'')
               else Inr (BinaryBooleanExpression op b1 b2
                      (Location_plus (Expression_location exp1) (Expression_location exp2)))))"

definition new_RelationalExpression ::
  "string \<Rightarrow> Expression \<Rightarrow> Expression \<Rightarrow> error + BooleanExpression" where
  "new_RelationalExpression op exp1 exp2 =
     (case ValueCast_IfNeeded exp1 of
        Inl e \<Rightarrow> Inl e
      | Inr v1 \<Rightarrow>
          (case ValueCast_IfNeeded exp2 of
             Inl e \<Rightarrow> Inl e
           | Inr v2 \<Rightarrow>
               if op \<noteq> ''=='' \<and> op \<noteq> ''!='' \<and> op \<noteq> ''<='' \<and> op \<noteq> ''>=''
                  \<and> op \<noteq> ''<'' \<and> op \<noteq> ''>''
               then Inl (domain_error ''invalid operator'')
               else Inr (RelationalExpression op v1 v2
                      (Location_plus (Expression_location exp1) (Expression_location exp2)))))"

subsection \<open>Statements and their constructors\<close>

datatype VariableDeclaration = VariableDeclaration string SymbolType Location

text \<open>
  \<^verbatim>\<open>Statement\<close> itself is the empty statement, and \<^verbatim>\<open>JumpStatement\<close> is a
  concrete class too. An \<^verbatim>\<open>Expression\<close> is a statement.
  A \<^verbatim>\<open>ReturnStatement\<close> may have no expression (\<^verbatim>\<open>nullptr\<close>). A
  \<^verbatim>\<open>SwitchStatement\<close> has the fields \<^verbatim>\<open>exp\<close>, \<^verbatim>\<open>case_values\<close> and
  \<^verbatim>\<open>case_bodies\<close>; its expression is set after construction, and a case value that
  is \<^verbatim>\<open>nullptr\<close> marks the default case. A block and a switch statement are
  statements (\<open>BlockStatement\<close>, \<open>SwitchStatementS\<close>).
\<close>

datatype Statement =
    EmptyStatement Location
  | ExpressionStatement Expression
  | DeclarationStatement VariableDeclaration
  | JumpStatement Location
  | ContinueStatement Location
  | BreakStatement Location
  | ReturnStatement "ValueExpression option" Location
  | BlockStatement StatementBlock
  | IfElseStatement BooleanExpression StatementBlock StatementBlock Location
  | SwitchStatementS SwitchStatement
  | WhileStatement BooleanExpression StatementBlock Location
  | ForStatement "Statement list" BooleanExpression Expression StatementBlock Location
and StatementBlock =
    StatementBlock "Statement list" Location
and SwitchStatement =
    SwitchStatement "ValueExpression option" "i32 option list" "Statement list list" Location

fun StatementBlock_location :: "StatementBlock \<Rightarrow> Location" where
  "StatementBlock_location (StatementBlock statements loc) = loc"

definition new_ReturnStatement :: "Expression \<Rightarrow> Location \<Rightarrow> error + Statement" where
  "new_ReturnStatement exp loc =
     (case ValueCast_IfNeeded exp of
        Inl e \<Rightarrow> Inl e
      | Inr v \<Rightarrow> Inr (ReturnStatement (Some v) loc))"

definition new_ReturnStatement_void :: "Location \<Rightarrow> Statement" where
  "new_ReturnStatement_void loc = ReturnStatement None loc"

definition new_IfElseStatement ::
  "Expression \<Rightarrow> StatementBlock \<Rightarrow> StatementBlock \<Rightarrow> Location \<Rightarrow> error + Statement" where
  "new_IfElseStatement condition then_block else_block loc =
     (case BooleanCast_IfNeeded condition of
        Inl e \<Rightarrow> Inl e
      | Inr b \<Rightarrow> Inr (IfElseStatement b then_block else_block loc))"

definition new_WhileStatement ::
  "Expression \<Rightarrow> StatementBlock \<Rightarrow> Location \<Rightarrow> error + Statement" where
  "new_WhileStatement condition body loc =
     (case BooleanCast_IfNeeded condition of
        Inl e \<Rightarrow> Inl e
      | Inr b \<Rightarrow> Inr (WhileStatement b body loc))"

definition new_ForStatement ::
  "Statement list \<Rightarrow> Expression \<Rightarrow> Expression \<Rightarrow> StatementBlock \<Rightarrow> Location
     \<Rightarrow> error + Statement" where
  "new_ForStatement initializer condition step body loc =
     (case BooleanCast_IfNeeded condition of
        Inl e \<Rightarrow> Inl e
      | Inr b \<Rightarrow>
          Inr (ForStatement initializer b step body
                 (Location_plus loc (StatementBlock_location body))))"

definition new_SwitchStatement :: "Location \<Rightarrow> SwitchStatement" where
  "new_SwitchStatement loc = SwitchStatement None [] [] loc"

text \<open>
  \<^verbatim>\<open>SwitchStatement::SetExpression\<close> replaces the field \<^verbatim>\<open>exp\<close>.
\<close>

fun SetExpression :: "SwitchStatement \<Rightarrow> Expression \<Rightarrow> error + SwitchStatement" where
  "SetExpression (SwitchStatement old case_values case_bodies loc) exp =
     (case ValueCast_IfNeeded exp of
        Inl e \<Rightarrow> Inl e
      | Inr v \<Rightarrow> Inr (SwitchStatement (Some v) case_values case_bodies loc))"

subsection \<open>Categories of a constructor argument\<close>

text \<open>
  What a value position and a boolean position of a node should hold for a given
  argument: the argument itself when it is of the position's category, the argument
  under one cast when it is of the other category. An argument of neither category
  has no place in either position.
\<close>

fun value_position :: "Expression \<Rightarrow> ValueExpression \<Rightarrow> bool" where
  "value_position (Value v) child = (child = v)"
| "value_position (Boolean b) child = (child = ValueCast b)"
| "value_position (StringExpression s) child = False"
| "value_position (Expression loc) child = False"

fun boolean_position :: "Expression \<Rightarrow> BooleanExpression \<Rightarrow> bool" where
  "boolean_position (Boolean b) child = (child = b)"
| "boolean_position (Value v) child = (child = BooleanCast v)"
| "boolean_position (StringExpression s) child = False"
| "boolean_position (Expression loc) child = False"

fun has_category :: "Expression \<Rightarrow> bool" where
  "has_category (Value v) = True"
| "has_category (Boolean b) = True"
| "has_category (StringExpression s) = False"
| "has_category (Expression loc) = False"

subsection \<open>Operator tables\<close>

text \<open>
  The private static maps \<^verbatim>\<open>op_to_instruction\<close> of
  \<^verbatim>\<open>UnaryValueExpression\<close>, \<^verbatim>\<open>BinaryValueExpression\<close> and
  \<^verbatim>\<open>RelationalExpression\<close>, with the entries in the order of the initialiser
  lists; a lookup in the \<^verbatim>\<open>std::map\<close> is \<open>map_of\<close>.
\<close>

definition UnaryValueExpression_op_to_instruction :: "(string \<times> string) list" where
  "UnaryValueExpression_op_to_instruction =
     [(''+'', ''move''), (''-'', ''negu''), (''~'', ''not'')]"

definition BinaryValueExpression_op_to_instruction :: "(string \<times> string) list" where
  "BinaryValueExpression_op_to_instruction =
     [(''+'', ''addu''), (''-'', ''subu''), (''*'', ''mul''), (''/'', ''divu''),
      (''&'', ''and''), (''|'', ''or''), (''^'', ''xor'')]"

definition RelationalExpression_op_to_instruction :: "(string \<times> string) list" where
  "RelationalExpression_op_to_instruction =
     [(''=='', ''beq''), (''!='', ''bne''), (''>'', ''bgt''), (''>='', ''bge''),
      (''<'', ''blt''), (''<='', ''ble'')]"

subsection \<open>Constant folding\<close>

text \<open>
  \<^verbatim>\<open>bool Precomputable(int& result)\<close> becomes a function to \<open>i32 option\<close>:
  \<open>Some r\<close> for \<^verbatim>\<open>true\<close> with \<^verbatim>\<open>result = r\<close>, \<open>None\<close> for
  \<^verbatim>\<open>false\<close>. The header gives the method of \<^verbatim>\<open>ValueExpression\<close> (false),
  inherited by every class that does not override it, of \<^verbatim>\<open>ConstantExpression\<close>
  (true, the stored value) and of \<^verbatim>\<open>StringLiteral\<close> (false).
\<close>

text \<open>
  Modelled from the spec: the bodies of \<^verbatim>\<open>UnaryValueExpression::Precomputable\<close>
  and \<^verbatim>\<open>BinaryValueExpression::Precomputable\<close> are in \<^verbatim>\<open>ast.cpp\<close>, which is
  not among the sources; the header only declares the overrides. By the spec a unary or
  binary node folds when all its children fold, with i32-wrapping arithmetic, with
  \<^verbatim>\<open>/\<close> as the unsigned division of \<^verbatim>\<open>divu\<close>, and a division by zero leaves
  the node unfolded. The operator of a constructed node is always one of the node's
  set; for any other string the functions give \<open>None\<close>.
\<close>

definition fold_unary :: "string \<Rightarrow> i32 \<Rightarrow> i32 option" where
  "fold_unary op a =
     (if op = ''+'' then Some a
      else if op = ''-'' then Some (- a)
      else if op = ''~'' then Some (NOT a)
      else None)"

definition fold_binary :: "string \<Rightarrow> i32 \<Rightarrow> i32 \<Rightarrow> i32 option" where
  "fold_binary op a b =
     (if op = ''+'' then Some (a + b)
      else if op = ''-'' then Some (a - b)
      else if op = ''*'' then Some (a * b)
      else if op = ''/'' then (if b = 0 then None else Some (a div b))
      else if op = ''&'' then Some (a AND b)
      else if op = ''|'' then Some (a OR b)
      else if op = ''^'' then Some (a XOR b)
      else None)"

fun Precomputable :: "ValueExpression \<Rightarrow> i32 option" where
  "Precomputable (ConstantExpression v loc) = Some v"
| "Precomputable (UnaryValueExpression op exp loc) =
     (case Precomputable exp of
        None \<Rightarrow> None
      | Some a \<Rightarrow> fold_unary op a)"
| "Precomputable (BinaryValueExpression op exp1 exp2 loc) =
     (case Precomputable exp1 of
        None \<Rightarrow> None
      | Some a \<Rightarrow>
          (case Precomputable exp2 of
             None \<Rightarrow> None
           | Some b \<Rightarrow> fold_binary op a b))"
| "Precomputable (ValueExpression loc) = None"
| "Precomputable (ValueCast exp) = None"
| "Precomputable (LValue lv) = None"
| "Precomputable (AssignmentExpression left exp loc) = None"
| "Precomputable (FunctionCallExpression name args loc) = None"



subsection \<open>Code, symbols and contexts\<close>

text \<open>
  Modelled from the spec: \<^verbatim>\<open>Code\<close>, \<^verbatim>\<open>Symbol\<close>, the contexts and
  \<^verbatim>\<open>tab\<close> are declared in \<^verbatim>\<open>translation.hpp\<close>. \<^verbatim>\<open>Code\<close> is an
  append-only pair of string buffers, the text section and the data section; adding two
  codes appends section by section, and adding a string appends it to the text section.
  A \<^verbatim>\<open>Symbol\<close> is the abstract capability to load its value into a named
  register and to save a named register into its slot: a record of these two methods,
  each from the register's name to the code. The text section is indented by tabs.
\<close>

record Code =
  text_section :: string
  data_section :: string

definition Code_plus :: "Code \<Rightarrow> Code \<Rightarrow> Code" where
  "Code_plus a b =
     \<lparr> text_section = text_section a @ text_section b,
       data_section = data_section a @ data_section b \<rparr>"

definition Code_plus_string :: "Code \<Rightarrow> string \<Rightarrow> Code" where
  "Code_plus_string a s = a \<lparr> text_section := text_section a @ s \<rparr>"

record Symbol =
  LoadValue :: "string \<Rightarrow> Code"
  SaveValue :: "string \<Rightarrow> Code"

definition tab :: string where
  "tab = [CHR 0x09]"

text \<open>
  Modelled from the spec: the global context mints fresh labels from a monotone
  counter (\<^verbatim>\<open>L0\<close>, \<^verbatim>\<open>L1\<close>, ...) and holds the global symbol table. A local
  context holds the chain of the enclosing scopes' tables, innermost first, and refers to
  the global context; looking a name up returns the nearest binding of the chain,
  otherwise the global binding, otherwise \<^verbatim>\<open>nullptr\<close> (\<open>None\<close>). An expression
  context is created from a local context and holds the free temporary registers
  \<^verbatim>\<open>$t0\<close> to \<^verbatim>\<open>$t9\<close>.
\<close>

record GlobalContext =
  label_counter :: nat
  symbols :: "string \<rightharpoonup> Symbol"

record LocalContext =
  scopes :: "(string \<rightharpoonup> Symbol) list"
  global_context :: GlobalContext

record ExpressionContext =
  local_context :: LocalContext
  free_temporaries :: "string list"

definition digit_char :: "nat \<Rightarrow> char" where
  "digit_char d = char_of (48 + d)"

function to_string :: "nat \<Rightarrow> string" where
  "to_string n =
     (if n < 10 then [digit_char n] else to_string (n div 10) @ [digit_char (n mod 10)])"
  by pat_completeness auto
termination
  by (relation "measure id") auto

declare to_string.simps [simp del]

definition label_name :: "nat \<Rightarrow> string" where
  "label_name n = ''L'' @ to_string n"

definition NewLabel :: "GlobalContext \<Rightarrow> string \<times> GlobalContext" where
  "NewLabel g = (label_name (label_counter g), g \<lparr> label_counter := Suc (label_counter g) \<rparr>)"

fun lookup_scopes :: "(string \<rightharpoonup> Symbol) list \<Rightarrow> string \<Rightarrow> Symbol option" where
  "lookup_scopes [] name = None"
| "lookup_scopes (scope # outer) name =
     (case scope name of
        Some symbol \<Rightarrow> Some symbol
      | None \<Rightarrow> lookup_scopes outer name)"

definition LocalContext_lookup :: "LocalContext \<Rightarrow> string \<Rightarrow> Symbol option" where
  "LocalContext_lookup ctx name =
     (case lookup_scopes (scopes ctx) name of
        Some symbol \<Rightarrow> Some symbol
      | None \<Rightarrow> symbols (global_context ctx) name)"

definition new_ExpressionContext :: "LocalContext \<Rightarrow> ExpressionContext" where
  "new_ExpressionContext ctx =
     \<lparr> local_context = ctx,
       free_temporaries =
         [''$t0'', ''$t1'', ''$t2'', ''$t3'', ''$t4'', ''$t5'', ''$t6'', ''$t7'', ''$t8'', ''$t9''] \<rparr>"

text \<open>
  \<^verbatim>\<open>StringLiteral::Evaluate\<close> is \<^verbatim>\<open>assert(false)\<close>, whatever the context. A
  \<^verbatim>\<open>StringLiteral\<close> does not override \<^verbatim>\<open>Compile\<close>, so compiling one as a
  statement (an expression statement, the step of a for statement) runs
  \<^verbatim>\<open>Expression::Compile\<close>, which is \<^verbatim>\<open>assert(false)\<close> too.
\<close>

definition StringLiteral_Evaluate ::
  "StringLiteral \<Rightarrow> ExpressionContext \<Rightarrow> error + Code \<times> Symbol" where
  "StringLiteral_Evaluate s ctx = Inl AssertionFailure"

definition StringLiteral_Compile ::
  "StringLiteral \<Rightarrow> LocalContext \<Rightarrow> error + Code \<times> LocalContext" where
  "StringLiteral_Compile s ctx = Inl AssertionFailure"

subsection \<open>Assignment to an lvalue\<close>

text \<open>
  \<^verbatim>\<open>VariableExpression::Assign\<close>: the name is looked up in the local context of the
  expression context; a null symbol throws the \<^verbatim>\<open>CompileError\<close>; otherwise the code
  is the load of the value into \<^verbatim>\<open>$v0\<close> followed by the save of \<^verbatim>\<open>$v0\<close> into
  the symbol.
\<close>

definition VariableExpression_Assign ::
  "string \<Rightarrow> Location \<Rightarrow> ExpressionContext \<Rightarrow> Symbol \<Rightarrow> error + Code" where
  "VariableExpression_Assign name location ctx val =
     (case LocalContext_lookup (local_context ctx) name of
        None \<Rightarrow> Inl (CompileError location (''undefined symbol '' @ [CHR 0x22] @ name @ [CHR 0x22]))
      | Some symbol \<Rightarrow> Inr (Code_plus (LoadValue val ''$v0'') (SaveValue symbol ''$v0'')))"

text \<open>
  The virtual method \<^verbatim>\<open>Assign\<close>: which body a call on a node runs, and what
  the call returns. On an instance of \<^verbatim>\<open>LValueExpression\<close> itself the call runs the
  default of the class, \<^verbatim>\<open>assert(false)\<close>; \<^verbatim>\<open>VariableExpression\<close> and
  \<^verbatim>\<open>ArrayAccessExpression\<close> both override it (the body of the second is in
  \<^verbatim>\<open>ast.cpp\<close> and is a parameter here).
\<close>

datatype Assign_body =
    LValueExpression_Assign
  | VariableExpression_Assign_body
  | ArrayAccessExpression_Assign

fun Assign_dispatch :: "LValueExpression \<Rightarrow> Assign_body" where
  "Assign_dispatch (LValueExpression loc) = LValueExpression_Assign"
| "Assign_dispatch (VariableExpression name loc) = VariableExpression_Assign_body"
| "Assign_dispatch (ArrayAccessExpression name index loc) = ArrayAccessExpression_Assign"

definition LValueExpression_Assign_default :: "ExpressionContext \<Rightarrow> Symbol \<Rightarrow> error + Code" where
  "LValueExpression_Assign_default ctx val = Inl AssertionFailure"

fun Assign ::
  "(string \<Rightarrow> ValueExpression \<Rightarrow> Location \<Rightarrow> ExpressionContext \<Rightarrow> Symbol \<Rightarrow> error + Code)
     \<Rightarrow> LValueExpression \<Rightarrow> ExpressionContext \<Rightarrow> Symbol \<Rightarrow> error + Code" where
  "Assign array_assign (LValueExpression loc) ctx val =
     LValueExpression_Assign_default ctx val"
| "Assign array_assign (VariableExpression name loc) ctx val =
     VariableExpression_Assign name loc ctx val"
| "Assign array_assign (ArrayAccessExpression name index loc) ctx val =
     array_assign name index loc ctx val"

subsection \<open>Compiling a boolean expression as a statement\<close>

text \<open>
  \<^verbatim>\<open>BooleanExpression::Compile\<close>. The virtual \<^verbatim>\<open>Evaluate\<close> of the node (its
  bodies are in \<^verbatim>\<open>ast.cpp\<close>) is the parameter \<open>Evaluate\<close>: it takes the expression
  context and the two labels and returns the code and the context as it left it, or
  the error it throws. The global context is reached by reference, so the label counter
  that \<^verbatim>\<open>NewLabel\<close> advanced is the one the evaluation sees.
\<close>

definition BooleanExpression_Compile ::
  "(ExpressionContext \<Rightarrow> string \<Rightarrow> string \<Rightarrow> error + Code \<times> ExpressionContext)
     \<Rightarrow> LocalContext \<Rightarrow> error + Code \<times> LocalContext" where
  "BooleanExpression_Compile Evaluate ctx =
     (let (label, g) = NewLabel (global_context ctx);
          inner = new_ExpressionContext (ctx \<lparr> global_context := g \<rparr>)
      in case Evaluate inner label label of
           Inl e \<Rightarrow> Inl e
         | Inr (code, inner') \<Rightarrow>
             Inr (Code_plus_string code (tab @ label @ '':'' @ [CHR 0x0A]),
                  local_context inner'))"

subsection \<open>Function definitions\<close>

text \<open>
  Modelled from the spec: the constructor of \<^verbatim>\<open>FunctionDefinition\<close> is defined in
  \<^verbatim>\<open>ast.cpp\<close>; the header declares it and the fields \<^verbatim>\<open>name\<close>,
  \<^verbatim>\<open>type\<close>, \<^verbatim>\<open>params\<close> and \<^verbatim>\<open>body\<close>. It stores its arguments in the fields
  of the same names (the fields are prefixed here, since \<^verbatim>\<open>name\<close> and
  \<^verbatim>\<open>type\<close> are taken).
\<close>

record FunctionDefinition =
  fn_name :: string
  fn_type :: SymbolType
  fn_params :: "VariableDeclaration list"
  fn_body :: StatementBlock
  fn_location :: Location

definition new_FunctionDefinition ::
  "string \<Rightarrow> SymbolType \<Rightarrow> VariableDeclaration list \<Rightarrow> StatementBlock \<Rightarrow> Location
     \<Rightarrow> FunctionDefinition" where
  "new_FunctionDefinition name type params body loc =
     \<lparr> fn_name = name, fn_type = type, fn_params = params, fn_body = body,
       fn_location = loc \<rparr>"

text \<open>
  \<^verbatim>\<open>MainFunctionDefinition\<close> is a \<^verbatim>\<open>FunctionDefinition\<close> (it only overrides
  \<^verbatim>\<open>Compile\<close>); its constructor passes the name \<^verbatim>\<open>"main"\<close> and an empty vector
  of parameters to the constructor of the base class.
\<close>

definition new_MainFunctionDefinition ::
  "SymbolType \<Rightarrow> StatementBlock \<Rightarrow> Location \<Rightarrow> FunctionDefinition" where
  "new_MainFunctionDefinition type body loc =
     new_FunctionDefinition ''main'' type [] body loc"

subsection \<open>What the emitted operator instructions compute\<close>



subsection \<open>Instructions, a register machine and the code of value operators\<close>


















subsection \<open>Where an error goes\<close>

text \<open>
  Modelled from the spec: \<^verbatim>\<open>Program::Compile\<close> is in \<^verbatim>\<open>ast.cpp\<close>. The
  diagnostics callback receives every \<^verbatim>\<open>CompileError\<close> that is caught at the boundary
  of a definition, as a location, the severity \<^verbatim>\<open>error\<close> and the message; a failure
  of the other kind is not a diagnostic and propagates out of the core.
\<close>

fun diagnostic :: "error \<Rightarrow> (Location \<times> string \<times> string) option" where
  "diagnostic (CompileError loc msg) = Some (loc, ''error'', msg)"
| "diagnostic (domain_error msg) = None"
| "diagnostic AssertionFailure = None"

text \<open>
  The end of \<^verbatim>\<open>main\<close> (\<^verbatim>\<open>main.cpp\<close>): the parse, during which the nodes are
  constructed, runs in a \<^verbatim>\<open>try\<close> block. A \<^verbatim>\<open>std::exception\<close> that leaves it is
  caught, its \<^verbatim>\<open>what()\<close> and a newline are written to \<^verbatim>\<open>std::cerr\<close>, and
  \<^verbatim>\<open>main\<close> returns \<^verbatim>\<open>EXIT_FAILURE\<close>; when the parse returns, \<^verbatim>\<open>main\<close> returns
  \<^verbatim>\<open>EXIT_FAILURE\<close> for a result other than 0 and \<^verbatim>\<open>EXIT_SUCCESS\<close> otherwise.
  The argument is \<open>Inl\<close> of the \<^verbatim>\<open>what()\<close> of the exception or \<open>Inr\<close> of the
  result of the parse; the value is what is written to \<^verbatim>\<open>std::cerr\<close> and the exit
  status. The \<^verbatim>\<open>what()\<close> of a \<^verbatim>\<open>std::domain_error\<close> is its message.
\<close>

definition EXIT_SUCCESS :: int where
  "EXIT_SUCCESS = 0"

definition EXIT_FAILURE :: int where
  "EXIT_FAILURE = 1"

fun main_after_parse :: "string + int \<Rightarrow> string \<times> int" where
  "main_after_parse (Inl what) = (what @ [CHR 0x0A], EXIT_FAILURE)"
| "main_after_parse (Inr result) = ([], if result \<noteq> 0 then EXIT_FAILURE else EXIT_SUCCESS)"

subsection \<open>Sample nodes\<close>

text \<open>
  A location, a value expression, a boolean expression and a block, used where a
  statement is evaluated at concrete nodes.
\<close>

definition sample_location :: Location where
  "sample_location = \<lparr> filename = ''prog.c'', begin_position = (3, 5), end_position = (3, 9) \<rparr>"

definition sample_constant :: ValueExpression where
  "sample_constant = ConstantExpression 7 sample_location"

definition sample_relation :: BooleanExpression where
  "sample_relation = RelationalExpression ''<'' sample_constant sample_constant sample_location"

definition sample_block :: StatementBlock where
  "sample_block = StatementBlock [] sample_location"

definition sample_literal :: StringLiteral where
  "sample_literal = StringLiteral ''hello'' sample_location"

text \<open>
  A sample symbol in the manner of the spec's global variable (\<^verbatim>\<open>lw reg, label\<close> to
  load, \<^verbatim>\<open>sw reg, label\<close> to save), and sample contexts: a global context whose next
  label is \<^verbatim>\<open>L7\<close> and that binds \<^verbatim>\<open>g\<close>, and a local context with two scopes, the
  inner one binding \<^verbatim>\<open>x\<close>.
\<close>

definition sample_symbol :: "string \<Rightarrow> Symbol" where
  "sample_symbol label =
     \<lparr> LoadValue = (\<lambda>reg. \<lparr> text_section = tab @ ''lw '' @ reg @ '', '' @ label @ [CHR 0x0A],
                            data_section = [] \<rparr>),
       SaveValue = (\<lambda>reg. \<lparr> text_section = tab @ ''sw '' @ reg @ '', '' @ label @ [CHR 0x0A],
                            data_section = [] \<rparr>) \<rparr>"

definition sample_global_context :: GlobalContext where
  "sample_global_context = \<lparr> label_counter = 7, symbols = [''g'' \<mapsto> sample_symbol ''g''] \<rparr>"

definition sample_local_context :: LocalContext where
  "sample_local_context =
     \<lparr> scopes = [[''x'' \<mapsto> sample_symbol ''x''], Map.empty],
       global_context = sample_global_context \<rparr>"

text \<open>
  A sample body of \<^verbatim>\<open>Evaluate\<close>, in the manner of the spec's boolean cast: a branch
  to the true label followed by a jump to the false label.
\<close>

definition sample_Evaluate ::
  "ExpressionContext \<Rightarrow> string \<Rightarrow> string \<Rightarrow> error + Code \<times> ExpressionContext" where
  "sample_Evaluate ctx true_label false_label =
     Inr (\<lparr> text_section =
              tab @ ''bne $t0, $0, '' @ true_label @ [CHR 0x0A]
                @ tab @ ''j '' @ false_label @ [CHR 0x0A],
            data_section = [] \<rparr>, ctx)"




definition sample_array_assign ::
  "string \<Rightarrow> ValueExpression \<Rightarrow> Location \<Rightarrow> ExpressionContext \<Rightarrow> Symbol \<Rightarrow> error + Code" where
  "sample_array_assign name index loc ctx val = Inr \<lparr> text_section = [], data_section = [] \<rparr>"

section \<open>Properties\<close>

subsection \<open>Coercion at construction\<close>

lemma ValueCast_IfNeeded_position:
  "(ValueCast_IfNeeded exp = Inr v) = value_position exp v"
  by (cases exp) auto

lemma BooleanCast_IfNeeded_position:
  "(BooleanCast_IfNeeded exp = Inr b) = boolean_position exp b"
  by (cases exp) auto

lemma Location_plus_same: "Location_plus l l = l"
  by (simp add: Location_plus_def)

lemma unary_value_node:
  "(new_UnaryValueExpression op exp loc = Inr n)
     = (op \<in> {''+'', ''-'', ''~''}
        \<and> (\<exists>child. value_position exp child
              \<and> n = UnaryValueExpression op child (Location_plus loc (Expression_location exp))))"
  by (cases "ValueCast_IfNeeded exp")
     (auto simp: new_UnaryValueExpression_def ValueCast_IfNeeded_position [symmetric]
        split: if_splits)

lemma binary_value_node:
  "(new_BinaryValueExpression op exp1 exp2 = Inr n)
     = (op \<in> {''+'', ''-'', ''*'', ''/'', ''&'', ''|'', ''^''}
        \<and> (\<exists>child1 child2. value_position exp1 child1 \<and> value_position exp2 child2
              \<and> n = BinaryValueExpression op child1 child2
                    (Location_plus (Expression_location exp1) (Expression_location exp2))))"
  by (cases "ValueCast_IfNeeded exp1"; cases "ValueCast_IfNeeded exp2")
     (auto simp: new_BinaryValueExpression_def ValueCast_IfNeeded_position [symmetric]
        split: if_splits)

lemma assignment_node:
  "(new_AssignmentExpression left exp = Inr n)
     = (\<exists>child. value_position exp child
          \<and> n = AssignmentExpression left child
                (Location_plus (LValueExpression_location left) (Expression_location exp)))"
  by (cases "ValueCast_IfNeeded exp")
     (auto simp: new_AssignmentExpression_def ValueCast_IfNeeded_position [symmetric])

lemma array_access_node:
  "(new_ArrayAccessExpression name exp loc = Inr n)
     = (\<exists>child. value_position exp child \<and> n = ArrayAccessExpression name child loc)"
  by (cases "ValueCast_IfNeeded exp")
     (auto simp: new_ArrayAccessExpression_def ValueCast_IfNeeded_position [symmetric])

lemma return_node:
  "(new_ReturnStatement exp loc = Inr n)
     = (\<exists>child. value_position exp child \<and> n = ReturnStatement (Some child) loc)"
  by (cases "ValueCast_IfNeeded exp")
     (auto simp: new_ReturnStatement_def ValueCast_IfNeeded_position [symmetric])

lemma relational_node:
  "(new_RelationalExpression op exp1 exp2 = Inr n)
     = (op \<in> {''=='', ''!='', ''<='', ''>='', ''<'', ''>''}
        \<and> (\<exists>child1 child2. value_position exp1 child1 \<and> value_position exp2 child2
              \<and> n = RelationalExpression op child1 child2
                    (Location_plus (Expression_location exp1) (Expression_location exp2))))"
  by (cases "ValueCast_IfNeeded exp1"; cases "ValueCast_IfNeeded exp2")
     (auto simp: new_RelationalExpression_def ValueCast_IfNeeded_position [symmetric]
        split: if_splits)

lemma unary_boolean_node:
  "(new_UnaryBooleanExpression op exp loc = Inr n)
     = (op \<in> {''!''}
        \<and> (\<exists>child. boolean_position exp child
              \<and> n = UnaryBooleanExpression op child (Location_plus loc (Expression_location exp))))"
  by (cases "BooleanCast_IfNeeded exp")
     (auto simp: new_UnaryBooleanExpression_def BooleanCast_IfNeeded_position [symmetric]
        split: if_splits)

lemma binary_boolean_node:
  "(new_BinaryBooleanExpression op exp1 exp2 = Inr n)
     = (op \<in> {''&&'', ''||''}
        \<and> (\<exists>child1 child2. boolean_position exp1 child1 \<and> boolean_position exp2 child2
              \<and> n = BinaryBooleanExpression op child1 child2
                    (Location_plus (Expression_location exp1) (Expression_location exp2))))"
  by (cases "BooleanCast_IfNeeded exp1"; cases "BooleanCast_IfNeeded exp2")
     (auto simp: new_BinaryBooleanExpression_def BooleanCast_IfNeeded_position [symmetric]
        split: if_splits)

lemma if_else_node:
  "(new_IfElseStatement exp then_block else_block loc = Inr n)
     = (\<exists>child. boolean_position exp child
          \<and> n = IfElseStatement child then_block else_block loc)"
  by (cases "BooleanCast_IfNeeded exp")
     (auto simp: new_IfElseStatement_def BooleanCast_IfNeeded_position [symmetric])

lemma while_node:
  "(new_WhileStatement exp body loc = Inr n)
     = (\<exists>child. boolean_position exp child \<and> n = WhileStatement child body loc)"
  by (cases "BooleanCast_IfNeeded exp")
     (auto simp: new_WhileStatement_def BooleanCast_IfNeeded_position [symmetric])

lemma for_node:
  "(new_ForStatement initializer exp step body loc = Inr n)
     = (\<exists>child. boolean_position exp child
          \<and> n = ForStatement initializer child step body
                (Location_plus loc (StatementBlock_location body)))"
  by (cases "BooleanCast_IfNeeded exp")
     (auto simp: new_ForStatement_def BooleanCast_IfNeeded_position [symmetric])

lemma switch_node:
  "(SetExpression (SwitchStatement old case_values case_bodies loc) exp = Inr n)
     = (\<exists>child. value_position exp child
          \<and> n = SwitchStatement (Some child) case_values case_bodies loc)"
  by (cases "ValueCast_IfNeeded exp")
     (auto simp: ValueCast_IfNeeded_position [symmetric])

text \<open>
  Claim C1. Each constructor with an expression child (unary and binary value
  operators, the right-hand side of an assignment, the index of an array access, the
  expression of a return, the operands of a relation, the unary and binary boolean
  operators, the conditions of if, while and for, the controlling expression of a
  switch) returns a node exactly when its operator, if it has one, is in its set and
  every child argument has a place in its position, and the node it returns is the one
  that holds these children: in a value position the argument itself when it is a value
  expression and \<open>ValueCast\<close> of the argument when it is a boolean expression; in a
  boolean position the argument itself when it is a boolean expression and
  \<open>BooleanCast\<close> of it when it is a value expression. So a child of the other
  category is always wrapped, in exactly one cast, and a child of the position's own
  category is stored unchanged, with no cast around it.
\<close>

theorem coercion_at_construction:
  "ValueCast_IfNeeded (Value v) = Inr v
   \<and> ValueCast_IfNeeded (Boolean b) = Inr (ValueCast b)
   \<and> BooleanCast_IfNeeded (Boolean b) = Inr b
   \<and> BooleanCast_IfNeeded (Value v) = Inr (BooleanCast v)
   \<and> ((new_UnaryValueExpression op_uv exp_uv loc_uv = Inr n_uv)
        = (op_uv \<in> {''+'', ''-'', ''~''}
           \<and> (\<exists>child. value_position exp_uv child
                 \<and> n_uv = UnaryValueExpression op_uv child
                       (Location_plus loc_uv (Expression_location exp_uv)))))
   \<and> ((new_BinaryValueExpression op_bv left_bv right_bv = Inr n_bv)
        = (op_bv \<in> {''+'', ''-'', ''*'', ''/'', ''&'', ''|'', ''^''}
           \<and> (\<exists>child1 child2. value_position left_bv child1 \<and> value_position right_bv child2
                 \<and> n_bv = BinaryValueExpression op_bv child1 child2
                       (Location_plus (Expression_location left_bv)
                          (Expression_location right_bv)))))
   \<and> ((new_AssignmentExpression target_as exp_as = Inr n_as)
        = (\<exists>child. value_position exp_as child
             \<and> n_as = AssignmentExpression target_as child
                   (Location_plus (LValueExpression_location target_as)
                      (Expression_location exp_as))))
   \<and> ((new_ArrayAccessExpression name_aa exp_aa loc_aa = Inr n_aa)
        = (\<exists>child. value_position exp_aa child
             \<and> n_aa = ArrayAccessExpression name_aa child loc_aa))
   \<and> ((new_ReturnStatement exp_rt loc_rt = Inr n_rt)
        = (\<exists>child. value_position exp_rt child \<and> n_rt = ReturnStatement (Some child) loc_rt))
   \<and> ((new_RelationalExpression op_rel left_rel right_rel = Inr n_rel)
        = (op_rel \<in> {''=='', ''!='', ''<='', ''>='', ''<'', ''>''}
           \<and> (\<exists>child1 child2. value_position left_rel child1
                 \<and> value_position right_rel child2
                 \<and> n_rel = RelationalExpression op_rel child1 child2
                       (Location_plus (Expression_location left_rel)
                          (Expression_location right_rel)))))
   \<and> ((new_UnaryBooleanExpression op_ub exp_ub loc_ub = Inr n_ub)
        = (op_ub \<in> {''!''}
           \<and> (\<exists>child. boolean_position exp_ub child
                 \<and> n_ub = UnaryBooleanExpression op_ub child
                       (Location_plus loc_ub (Expression_location exp_ub)))))
   \<and> ((new_BinaryBooleanExpression op_bb left_bb right_bb = Inr n_bb)
        = (op_bb \<in> {''&&'', ''||''}
           \<and> (\<exists>child1 child2. boolean_position left_bb child1
                 \<and> boolean_position right_bb child2
                 \<and> n_bb = BinaryBooleanExpression op_bb child1 child2
                       (Location_plus (Expression_location left_bb)
                          (Expression_location right_bb)))))
   \<and> ((new_IfElseStatement exp_if then_block else_block loc_if = Inr n_if)
        = (\<exists>child. boolean_position exp_if child
             \<and> n_if = IfElseStatement child then_block else_block loc_if))
   \<and> ((new_WhileStatement exp_wh body_wh loc_wh = Inr n_wh)
        = (\<exists>child. boolean_position exp_wh child \<and> n_wh = WhileStatement child body_wh loc_wh))
   \<and> ((new_ForStatement initializer exp_for step body_for loc_for = Inr n_for)
        = (\<exists>child. boolean_position exp_for child
             \<and> n_for = ForStatement initializer child step body_for
                   (Location_plus loc_for (StatementBlock_location body_for))))
   \<and> ((SetExpression (SwitchStatement old case_values case_bodies loc_sw) exp_sw = Inr n_sw)
        = (\<exists>child. value_position exp_sw child
             \<and> n_sw = SwitchStatement (Some child) case_values case_bodies loc_sw))"
  by (intro conjI)
     (rule ValueCast_IfNeeded.simps BooleanCast_IfNeeded.simps unary_value_node
        binary_value_node assignment_node array_access_node return_node relational_node
        unary_boolean_node binary_boolean_node if_else_node while_node for_node switch_node)+

lemma sample_locations:
  "ValueExpression_location sample_constant = sample_location"
  "BooleanExpression_location sample_relation = sample_location"
  "StatementBlock_location sample_block = sample_location"
  by (simp_all add: sample_constant_def sample_relation_def sample_block_def)

text \<open>
  Every constructor at a child of the other category, where it wraps the child in the
  cast, and at a child of its own category, where it stores the child as it is.
\<close>

theorem coercion_at_construction_witness:
  "new_UnaryValueExpression ''-'' (Boolean sample_relation) sample_location
     = Inr (UnaryValueExpression ''-'' (ValueCast sample_relation) sample_location)
   \<and> new_BinaryValueExpression ''+'' (Boolean sample_relation) (Boolean sample_relation)
     = Inr (BinaryValueExpression ''+'' (ValueCast sample_relation) (ValueCast sample_relation) sample_location)
   \<and> new_AssignmentExpression (VariableExpression ''x'' sample_location) (Boolean sample_relation)
     = Inr (AssignmentExpression (VariableExpression ''x'' sample_location) (ValueCast sample_relation) sample_location)
   \<and> new_ArrayAccessExpression ''a'' (Boolean sample_relation) sample_location
     = Inr (ArrayAccessExpression ''a'' (ValueCast sample_relation) sample_location)
   \<and> new_ReturnStatement (Boolean sample_relation) sample_location
     = Inr (ReturnStatement (Some (ValueCast sample_relation)) sample_location)
   \<and> new_RelationalExpression ''=='' (Boolean sample_relation) (Boolean sample_relation)
     = Inr (RelationalExpression ''=='' (ValueCast sample_relation) (ValueCast sample_relation) sample_location)
   \<and> new_UnaryBooleanExpression ''!'' (Value sample_constant) sample_location
     = Inr (UnaryBooleanExpression ''!'' (BooleanCast sample_constant) sample_location)
   \<and> new_BinaryBooleanExpression ''&&'' (Value sample_constant) (Value sample_constant)
     = Inr (BinaryBooleanExpression ''&&'' (BooleanCast sample_constant) (BooleanCast sample_constant) sample_location)
   \<and> new_IfElseStatement (Value sample_constant) sample_block sample_block sample_location
     = Inr (IfElseStatement (BooleanCast sample_constant) sample_block sample_block sample_location)
   \<and> new_WhileStatement (Value sample_constant) sample_block sample_location
     = Inr (WhileStatement (BooleanCast sample_constant) sample_block sample_location)
   \<and> new_ForStatement [] (Value sample_constant) (Value sample_constant) sample_block sample_location
     = Inr (ForStatement [] (BooleanCast sample_constant) (Value sample_constant) sample_block sample_location)
   \<and> SetExpression (SwitchStatement None [] [] sample_location) (Boolean sample_relation)
     = Inr (SwitchStatement (Some (ValueCast sample_relation)) [] [] sample_location)
   \<and> new_UnaryValueExpression ''-'' (Value sample_constant) sample_location
     = Inr (UnaryValueExpression ''-'' (sample_constant) sample_location)
   \<and> new_BinaryValueExpression ''+'' (Value sample_constant) (Value sample_constant)
     = Inr (BinaryValueExpression ''+'' (sample_constant) (sample_constant) sample_location)
   \<and> new_AssignmentExpression (VariableExpression ''x'' sample_location) (Value sample_constant)
     = Inr (AssignmentExpression (VariableExpression ''x'' sample_location) (sample_constant) sample_location)
   \<and> new_ArrayAccessExpression ''a'' (Value sample_constant) sample_location
     = Inr (ArrayAccessExpression ''a'' (sample_constant) sample_location)
   \<and> new_ReturnStatement (Value sample_constant) sample_location
     = Inr (ReturnStatement (Some (sample_constant)) sample_location)
   \<and> new_RelationalExpression ''=='' (Value sample_constant) (Value sample_constant)
     = Inr (RelationalExpression ''=='' (sample_constant) (sample_constant) sample_location)
   \<and> new_UnaryBooleanExpression ''!'' (Boolean sample_relation) sample_location
     = Inr (UnaryBooleanExpression ''!'' (sample_relation) sample_location)
   \<and> new_BinaryBooleanExpression ''&&'' (Boolean sample_relation) (Boolean sample_relation)
     = Inr (BinaryBooleanExpression ''&&'' (sample_relation) (sample_relation) sample_location)
   \<and> new_IfElseStatement (Boolean sample_relation) sample_block sample_block sample_location
     = Inr (IfElseStatement (sample_relation) sample_block sample_block sample_location)
   \<and> new_WhileStatement (Boolean sample_relation) sample_block sample_location
     = Inr (WhileStatement (sample_relation) sample_block sample_location)
   \<and> new_ForStatement [] (Boolean sample_relation) (Value sample_constant) sample_block sample_location
     = Inr (ForStatement [] (sample_relation) (Value sample_constant) sample_block sample_location)
   \<and> SetExpression (SwitchStatement None [] [] sample_location) (Value sample_constant)
     = Inr (SwitchStatement (Some (sample_constant)) [] [] sample_location)"
  using
    coercion_at_construction
      [where op_uv = "''-''"
       and exp_uv = "Boolean sample_relation"
       and loc_uv = "sample_location"
       and n_uv = "UnaryValueExpression ''-'' (ValueCast sample_relation) sample_location"
       and op_bv = "''+''"
       and left_bv = "Boolean sample_relation"
       and right_bv = "Boolean sample_relation"
       and n_bv = "BinaryValueExpression ''+'' (ValueCast sample_relation) (ValueCast sample_relation) sample_location"
       and target_as = "VariableExpression ''x'' sample_location"
       and exp_as = "Boolean sample_relation"
       and n_as = "AssignmentExpression (VariableExpression ''x'' sample_location) (ValueCast sample_relation) sample_location"
       and name_aa = "''a''"
       and exp_aa = "Boolean sample_relation"
       and loc_aa = "sample_location"
       and n_aa = "ArrayAccessExpression ''a'' (ValueCast sample_relation) sample_location"
       and exp_rt = "Boolean sample_relation"
       and loc_rt = "sample_location"
       and n_rt = "ReturnStatement (Some (ValueCast sample_relation)) sample_location"
       and op_rel = "''==''"
       and left_rel = "Boolean sample_relation"
       and right_rel = "Boolean sample_relation"
       and n_rel = "RelationalExpression ''=='' (ValueCast sample_relation) (ValueCast sample_relation) sample_location"
       and op_ub = "''!''"
       and exp_ub = "Value sample_constant"
       and loc_ub = "sample_location"
       and n_ub = "UnaryBooleanExpression ''!'' (BooleanCast sample_constant) sample_location"
       and op_bb = "''&&''"
       and left_bb = "Value sample_constant"
       and right_bb = "Value sample_constant"
       and n_bb = "BinaryBooleanExpression ''&&'' (BooleanCast sample_constant) (BooleanCast sample_constant) sample_location"
       and exp_if = "Value sample_constant"
       and then_block = "sample_block"
       and else_block = "sample_block"
       and loc_if = "sample_location"
       and n_if = "IfElseStatement (BooleanCast sample_constant) sample_block sample_block sample_location"
       and exp_wh = "Value sample_constant"
       and body_wh = "sample_block"
       and loc_wh = "sample_location"
       and n_wh = "WhileStatement (BooleanCast sample_constant) sample_block sample_location"
       and initializer = "[]"
       and exp_for = "Value sample_constant"
       and step = "Value sample_constant"
       and body_for = "sample_block"
       and loc_for = "sample_location"
       and n_for = "ForStatement [] (BooleanCast sample_constant) (Value sample_constant) sample_block sample_location"
       and old = "None"
       and case_values = "[]"
       and case_bodies = "[]"
       and loc_sw = "sample_location"
       and exp_sw = "Boolean sample_relation"
       and n_sw = "SwitchStatement (Some (ValueCast sample_relation)) [] [] sample_location"]
    coercion_at_construction
      [where op_uv = "''-''"
       and exp_uv = "Value sample_constant"
       and loc_uv = "sample_location"
       and n_uv = "UnaryValueExpression ''-'' (sample_constant) sample_location"
       and op_bv = "''+''"
       and left_bv = "Value sample_constant"
       and right_bv = "Value sample_constant"
       and n_bv = "BinaryValueExpression ''+'' (sample_constant) (sample_constant) sample_location"
       and target_as = "VariableExpression ''x'' sample_location"
       and exp_as = "Value sample_constant"
       and n_as = "AssignmentExpression (VariableExpression ''x'' sample_location) (sample_constant) sample_location"
       and name_aa = "''a''"
       and exp_aa = "Value sample_constant"
       and loc_aa = "sample_location"
       and n_aa = "ArrayAccessExpression ''a'' (sample_constant) sample_location"
       and exp_rt = "Value sample_constant"
       and loc_rt = "sample_location"
       and n_rt = "ReturnStatement (Some (sample_constant)) sample_location"
       and op_rel = "''==''"
       and left_rel = "Value sample_constant"
       and right_rel = "Value sample_constant"
       and n_rel = "RelationalExpression ''=='' (sample_constant) (sample_constant) sample_location"
       and op_ub = "''!''"
       and exp_ub = "Boolean sample_relation"
       and loc_ub = "sample_location"
       and n_ub = "UnaryBooleanExpression ''!'' (sample_relation) sample_location"
       and op_bb = "''&&''"
       and left_bb = "Boolean sample_relation"
       and right_bb = "Boolean sample_relation"
       and n_bb = "BinaryBooleanExpression ''&&'' (sample_relation) (sample_relation) sample_location"
       and exp_if = "Boolean sample_relation"
       and then_block = "sample_block"
       and else_block = "sample_block"
       and loc_if = "sample_location"
       and n_if = "IfElseStatement (sample_relation) sample_block sample_block sample_location"
       and exp_wh = "Boolean sample_relation"
       and body_wh = "sample_block"
       and loc_wh = "sample_location"
       and n_wh = "WhileStatement (sample_relation) sample_block sample_location"
       and initializer = "[]"
       and exp_for = "Boolean sample_relation"
       and step = "Value sample_constant"
       and body_for = "sample_block"
       and loc_for = "sample_location"
       and n_for = "ForStatement [] (sample_relation) (Value sample_constant) sample_block sample_location"
       and old = "None"
       and case_values = "[]"
       and case_bodies = "[]"
       and loc_sw = "sample_location"
       and exp_sw = "Value sample_constant"
       and n_sw = "SwitchStatement (Some (sample_constant)) [] [] sample_location"]
  by (simp add: sample_locations Location_plus_same)

subsection \<open>Operators accepted by the constructors\<close>

lemma has_category_ValueCast:
  "has_category exp \<Longrightarrow> \<exists>v. ValueCast_IfNeeded exp = Inr v"
  by (cases exp) auto

lemma has_category_BooleanCast:
  "has_category exp \<Longrightarrow> \<exists>b. BooleanCast_IfNeeded exp = Inr b"
  by (cases exp) auto

lemma no_category_ValueCast:
  "\<not> has_category exp \<Longrightarrow> ValueCast_IfNeeded exp = Inl AssertionFailure"
  by (cases exp) auto

lemma no_category_BooleanCast:
  "\<not> has_category exp \<Longrightarrow> BooleanCast_IfNeeded exp = Inl AssertionFailure"
  by (cases exp) auto

lemma unary_value_outcome:
  "((new_UnaryValueExpression op exp loc = Inl AssertionFailure) = (\<not> (has_category exp)))
   \<and> ((new_UnaryValueExpression op exp loc = Inl (domain_error ''invalid operator''))
        = (has_category exp \<and> op \<notin> {''+'', ''-'', ''~''}))
   \<and> ((\<exists>n. new_UnaryValueExpression op exp loc = Inr n)
        = (has_category exp \<and> op \<in> {''+'', ''-'', ''~''}))
   \<and> (\<forall>e. new_UnaryValueExpression op exp loc = Inl e \<longrightarrow> diagnostic e = None)"
proof (cases "has_category exp")
  case True
  from has_category_ValueCast [OF True] obtain child where "ValueCast_IfNeeded exp = Inr child"
    by blast
  with True show ?thesis
    by (auto simp: new_UnaryValueExpression_def split: if_splits)
next
  case False
  from no_category_ValueCast [OF False] False show ?thesis
    by (simp add: new_UnaryValueExpression_def)
qed

lemma binary_value_outcome:
  "((new_BinaryValueExpression op exp1 exp2 = Inl AssertionFailure) = (\<not> (has_category exp1 \<and> has_category exp2)))
   \<and> ((new_BinaryValueExpression op exp1 exp2 = Inl (domain_error ''invalid operator''))
        = (has_category exp1 \<and> has_category exp2
             \<and> op \<notin> {''+'', ''-'', ''*'', ''/'', ''&'', ''|'', ''^''}))
   \<and> ((\<exists>n. new_BinaryValueExpression op exp1 exp2 = Inr n)
        = (has_category exp1 \<and> has_category exp2
             \<and> op \<in> {''+'', ''-'', ''*'', ''/'', ''&'', ''|'', ''^''}))
   \<and> (\<forall>e. new_BinaryValueExpression op exp1 exp2 = Inl e \<longrightarrow> diagnostic e = None)"
proof (cases "has_category exp1")
  case first: True
  from has_category_ValueCast [OF first] obtain child1 where
    child1: "ValueCast_IfNeeded exp1 = Inr child1"
    by blast
  show ?thesis
  proof (cases "has_category exp2")
    case True
    from has_category_ValueCast [OF True] obtain child2 where
      "ValueCast_IfNeeded exp2 = Inr child2"
      by blast
    with first True child1 show ?thesis
      by (auto simp: new_BinaryValueExpression_def split: if_splits)
  next
    case False
    from no_category_ValueCast [OF False] False child1 show ?thesis
      by (simp add: new_BinaryValueExpression_def)
  qed
next
  case False
  from no_category_ValueCast [OF False] False show ?thesis
    by (simp add: new_BinaryValueExpression_def)
qed

lemma unary_boolean_outcome:
  "((new_UnaryBooleanExpression op exp loc = Inl AssertionFailure) = (\<not> (has_category exp)))
   \<and> ((new_UnaryBooleanExpression op exp loc = Inl (domain_error ''invalid operator''))
        = (has_category exp \<and> op \<notin> {''!''}))
   \<and> ((\<exists>n. new_UnaryBooleanExpression op exp loc = Inr n)
        = (has_category exp \<and> op \<in> {''!''}))
   \<and> (\<forall>e. new_UnaryBooleanExpression op exp loc = Inl e \<longrightarrow> diagnostic e = None)"
proof (cases "has_category exp")
  case True
  from has_category_BooleanCast [OF True] obtain child where "BooleanCast_IfNeeded exp = Inr child"
    by blast
  with True show ?thesis
    by (auto simp: new_UnaryBooleanExpression_def split: if_splits)
next
  case False
  from no_category_BooleanCast [OF False] False show ?thesis
    by (simp add: new_UnaryBooleanExpression_def)
qed

lemma binary_boolean_outcome:
  "((new_BinaryBooleanExpression op exp1 exp2 = Inl AssertionFailure) = (\<not> (has_category exp1 \<and> has_category exp2)))
   \<and> ((new_BinaryBooleanExpression op exp1 exp2 = Inl (domain_error ''invalid operator''))
        = (has_category exp1 \<and> has_category exp2
             \<and> op \<notin> {''&&'', ''||''}))
   \<and> ((\<exists>n. new_BinaryBooleanExpression op exp1 exp2 = Inr n)
        = (has_category exp1 \<and> has_category exp2
             \<and> op \<in> {''&&'', ''||''}))
   \<and> (\<forall>e. new_BinaryBooleanExpression op exp1 exp2 = Inl e \<longrightarrow> diagnostic e = None)"
proof (cases "has_category exp1")
  case first: True
  from has_category_BooleanCast [OF first] obtain child1 where
    child1: "BooleanCast_IfNeeded exp1 = Inr child1"
    by blast
  show ?thesis
  proof (cases "has_category exp2")
    case True
    from has_category_BooleanCast [OF True] obtain child2 where
      "BooleanCast_IfNeeded exp2 = Inr child2"
      by blast
    with first True child1 show ?thesis
      by (auto simp: new_BinaryBooleanExpression_def split: if_splits)
  next
    case False
    from no_category_BooleanCast [OF False] False child1 show ?thesis
      by (simp add: new_BinaryBooleanExpression_def)
  qed
next
  case False
  from no_category_BooleanCast [OF False] False show ?thesis
    by (simp add: new_BinaryBooleanExpression_def)
qed

lemma relational_outcome:
  "((new_RelationalExpression op exp1 exp2 = Inl AssertionFailure) = (\<not> (has_category exp1 \<and> has_category exp2)))
   \<and> ((new_RelationalExpression op exp1 exp2 = Inl (domain_error ''invalid operator''))
        = (has_category exp1 \<and> has_category exp2
             \<and> op \<notin> {''=='', ''!='', ''<='', ''>='', ''<'', ''>''}))
   \<and> ((\<exists>n. new_RelationalExpression op exp1 exp2 = Inr n)
        = (has_category exp1 \<and> has_category exp2
             \<and> op \<in> {''=='', ''!='', ''<='', ''>='', ''<'', ''>''}))
   \<and> (\<forall>e. new_RelationalExpression op exp1 exp2 = Inl e \<longrightarrow> diagnostic e = None)"
proof (cases "has_category exp1")
  case first: True
  from has_category_ValueCast [OF first] obtain child1 where
    child1: "ValueCast_IfNeeded exp1 = Inr child1"
    by blast
  show ?thesis
  proof (cases "has_category exp2")
    case True
    from has_category_ValueCast [OF True] obtain child2 where
      "ValueCast_IfNeeded exp2 = Inr child2"
      by blast
    with first True child1 show ?thesis
      by (auto simp: new_RelationalExpression_def split: if_splits)
  next
    case False
    from no_category_ValueCast [OF False] False child1 show ?thesis
      by (simp add: new_RelationalExpression_def)
  qed
next
  case False
  from no_category_ValueCast [OF False] False show ?thesis
    by (simp add: new_RelationalExpression_def)
qed

lemma unary_value_not_CompileError:
  "\<not> is_CompileError (new_UnaryValueExpression op exp loc)"
  by (cases exp) (simp_all add: new_UnaryValueExpression_def)

lemma binary_value_not_CompileError:
  "\<not> is_CompileError (new_BinaryValueExpression op exp1 exp2)"
  by (cases exp1; cases exp2) (simp_all add: new_BinaryValueExpression_def)

lemma unary_boolean_not_CompileError:
  "\<not> is_CompileError (new_UnaryBooleanExpression op exp loc)"
  by (cases exp) (simp_all add: new_UnaryBooleanExpression_def)

lemma binary_boolean_not_CompileError:
  "\<not> is_CompileError (new_BinaryBooleanExpression op exp1 exp2)"
  by (cases exp1; cases exp2) (simp_all add: new_BinaryBooleanExpression_def)

lemma relational_not_CompileError:
  "\<not> is_CompileError (new_RelationalExpression op exp1 exp2)"
  by (cases exp1; cases exp2) (simp_all add: new_RelationalExpression_def)

text \<open>
  Claim C6, as the code has it. Each operator constructor first coerces its children.
  When a child is of neither category (a string literal, or an instance of
  \<^verbatim>\<open>Expression\<close> itself), the assertion of the coercion helper fails, whatever the
  operator. Otherwise the constructor throws
  \<^verbatim>\<open>std::domain_error("invalid operator")\<close> exactly for the operator names outside
  its set and returns a node exactly for the names in its set: \<open>+ - ~\<close> for a unary
  value expression, \<open>+ - * / & | ^\<close> for a binary value expression, \<open>!\<close> for a unary
  boolean expression, \<open>&& ||\<close> for a binary boolean expression and
  \<open>== != <= >= < >\<close> for a relation. What a constructor throws is never a
  \<^verbatim>\<open>CompileError\<close> and so never a diagnostic of the callback. It still reaches the
  user when it leaves the parse: \<^verbatim>\<open>main\<close> writes the message
  \<^verbatim>\<open>invalid operator\<close> to \<^verbatim>\<open>std::cerr\<close> and returns \<^verbatim>\<open>EXIT_FAILURE\<close>.
\<close>

theorem operator_constructors:
  "((new_UnaryValueExpression op exp loc = Inl AssertionFailure) = (\<not> (has_category exp)))
   \<and> ((new_UnaryValueExpression op exp loc = Inl (domain_error ''invalid operator''))
        = (has_category exp \<and> op \<notin> {''+'', ''-'', ''~''}))
   \<and> ((\<exists>n. new_UnaryValueExpression op exp loc = Inr n)
        = (has_category exp \<and> op \<in> {''+'', ''-'', ''~''}))
   \<and> (\<forall>e. new_UnaryValueExpression op exp loc = Inl e \<longrightarrow> diagnostic e = None)
   \<and> \<not> is_CompileError (new_UnaryValueExpression op exp loc)
   \<and> ((new_BinaryValueExpression op exp1 exp2 = Inl AssertionFailure)
        = (\<not> (has_category exp1 \<and> has_category exp2)))
   \<and> ((new_BinaryValueExpression op exp1 exp2 = Inl (domain_error ''invalid operator''))
        = (has_category exp1 \<and> has_category exp2
             \<and> op \<notin> {''+'', ''-'', ''*'', ''/'', ''&'', ''|'', ''^''}))
   \<and> ((\<exists>n. new_BinaryValueExpression op exp1 exp2 = Inr n)
        = (has_category exp1 \<and> has_category exp2
             \<and> op \<in> {''+'', ''-'', ''*'', ''/'', ''&'', ''|'', ''^''}))
   \<and> (\<forall>e. new_BinaryValueExpression op exp1 exp2 = Inl e \<longrightarrow> diagnostic e = None)
   \<and> \<not> is_CompileError (new_BinaryValueExpression op exp1 exp2)
   \<and> ((new_UnaryBooleanExpression op exp loc = Inl AssertionFailure) = (\<not> (has_category exp)))
   \<and> ((new_UnaryBooleanExpression op exp loc = Inl (domain_error ''invalid operator''))
        = (has_category exp \<and> op \<notin> {''!''}))
   \<and> ((\<exists>n. new_UnaryBooleanExpression op exp loc = Inr n)
        = (has_category exp \<and> op \<in> {''!''}))
   \<and> (\<forall>e. new_UnaryBooleanExpression op exp loc = Inl e \<longrightarrow> diagnostic e = None)
   \<and> \<not> is_CompileError (new_UnaryBooleanExpression op exp loc)
   \<and> ((new_BinaryBooleanExpression op exp1 exp2 = Inl AssertionFailure)
        = (\<not> (has_category exp1 \<and> has_category exp2)))
   \<and> ((new_BinaryBooleanExpression op exp1 exp2 = Inl (domain_error ''invalid operator''))
        = (has_category exp1 \<and> has_category exp2
             \<and> op \<notin> {''&&'', ''||''}))
   \<and> ((\<exists>n. new_BinaryBooleanExpression op exp1 exp2 = Inr n)
        = (has_category exp1 \<and> has_category exp2
             \<and> op \<in> {''&&'', ''||''}))
   \<and> (\<forall>e. new_BinaryBooleanExpression op exp1 exp2 = Inl e \<longrightarrow> diagnostic e = None)
   \<and> \<not> is_CompileError (new_BinaryBooleanExpression op exp1 exp2)
   \<and> ((new_RelationalExpression op exp1 exp2 = Inl AssertionFailure)
        = (\<not> (has_category exp1 \<and> has_category exp2)))
   \<and> ((new_RelationalExpression op exp1 exp2 = Inl (domain_error ''invalid operator''))
        = (has_category exp1 \<and> has_category exp2
             \<and> op \<notin> {''=='', ''!='', ''<='', ''>='', ''<'', ''>''}))
   \<and> ((\<exists>n. new_RelationalExpression op exp1 exp2 = Inr n)
        = (has_category exp1 \<and> has_category exp2
             \<and> op \<in> {''=='', ''!='', ''<='', ''>='', ''<'', ''>''}))
   \<and> (\<forall>e. new_RelationalExpression op exp1 exp2 = Inl e \<longrightarrow> diagnostic e = None)
   \<and> \<not> is_CompileError (new_RelationalExpression op exp1 exp2)
   \<and> main_after_parse (Inl ''invalid operator'')
       = (''invalid operator'' @ [CHR 0x0A], EXIT_FAILURE)"
  using unary_value_outcome [of op exp loc] binary_value_outcome [of op exp1 exp2]
    unary_boolean_outcome [of op exp loc] binary_boolean_outcome [of op exp1 exp2]
    relational_outcome [of op exp1 exp2]
  by (elim conjE, intro conjI)
     (assumption
      | rule unary_value_not_CompileError binary_value_not_CompileError
          unary_boolean_not_CompileError binary_boolean_not_CompileError
          relational_not_CompileError main_after_parse.simps)+

theorem operator_constructors_witness:
  "new_UnaryValueExpression ''<'' (Value sample_constant) sample_location
       = Inl (domain_error ''invalid operator'')
   \<and> new_BinaryValueExpression ''<'' (Value sample_constant) (Boolean sample_relation)
       = Inl (domain_error ''invalid operator'')
   \<and> new_UnaryBooleanExpression ''<'' (Value sample_constant) sample_location
       = Inl (domain_error ''invalid operator'')
   \<and> new_BinaryBooleanExpression ''<'' (Value sample_constant) (Boolean sample_relation)
       = Inl (domain_error ''invalid operator'')
   \<and> (\<exists>n. new_RelationalExpression ''<'' (Value sample_constant) (Boolean sample_relation)
            = Inr n)
   \<and> diagnostic (domain_error ''invalid operator'') = None
   \<and> new_UnaryValueExpression ''<'' (StringExpression sample_literal) sample_location
       = Inl AssertionFailure
   \<and> new_RelationalExpression ''<'' (Value sample_constant) (StringExpression sample_literal)
       = Inl AssertionFailure
   \<and> main_after_parse (Inl ''invalid operator'')
       = (''invalid operator'' @ [CHR 0x0A], EXIT_FAILURE)"
  using
    operator_constructors
      [where op = "''<''" and exp = "Value sample_constant" and loc = sample_location
         and ?exp1.0 = "Value sample_constant" and ?exp2.0 = "Boolean sample_relation"]
    operator_constructors
      [where op = "''<''" and exp = "StringExpression sample_literal"
         and loc = sample_location
         and ?exp1.0 = "Value sample_constant" and ?exp2.0 = "StringExpression sample_literal"]
  by simp

text \<open>
  The claim as stated fails where a child is a string literal: \<open>%\<close> is outside the
  set of the unary value operators, and the constructor does not throw the
  \<^verbatim>\<open>std::domain_error\<close>, since the assertion of the coercion fails first.
\<close>

theorem operator_constructors_string_literal:
  "''%'' \<notin> {''+'', ''-'', ''~''}
   \<and> new_UnaryValueExpression ''%'' (StringExpression sample_literal) sample_location
       \<noteq> Inl (domain_error ''invalid operator'')
   \<and> new_UnaryValueExpression ''%'' (StringExpression sample_literal) sample_location
       = Inl AssertionFailure"
  by (simp add: new_UnaryValueExpression_def)

subsection \<open>String literals outside a global initialiser\<close>

lemma ValueCast_IfNeeded_error:
  "ValueCast_IfNeeded exp = Inl AssertionFailure \<or> (\<exists>v. ValueCast_IfNeeded exp = Inr v)"
  by (cases exp) auto

lemma BooleanCast_IfNeeded_error:
  "BooleanCast_IfNeeded exp = Inl AssertionFailure \<or> (\<exists>v. BooleanCast_IfNeeded exp = Inr v)"
  by (cases exp) auto

lemma string_literal_binary_value:
  "new_BinaryValueExpression op (StringExpression s) exp2 = Inl AssertionFailure"
  "new_BinaryValueExpression op exp1 (StringExpression s) = Inl AssertionFailure"
  using ValueCast_IfNeeded_error [of exp1]
  by (auto simp: new_BinaryValueExpression_def)

lemma string_literal_relational:
  "new_RelationalExpression op (StringExpression s) exp2 = Inl AssertionFailure"
  "new_RelationalExpression op exp1 (StringExpression s) = Inl AssertionFailure"
  using ValueCast_IfNeeded_error [of exp1]
  by (auto simp: new_RelationalExpression_def)

lemma string_literal_binary_boolean:
  "new_BinaryBooleanExpression op (StringExpression s) exp2 = Inl AssertionFailure"
  "new_BinaryBooleanExpression op exp1 (StringExpression s) = Inl AssertionFailure"
  using BooleanCast_IfNeeded_error [of exp1]
  by (auto simp: new_BinaryBooleanExpression_def)

text \<open>
  Claim C4, as the code has it. Evaluating a string literal, compiling one as a
  statement, and passing one to any constructor position that requires a value or a
  boolean expression, fails the \<^verbatim>\<open>assert(false)\<close> of
  \<^verbatim>\<open>StringLiteral::Evaluate\<close>, of \<^verbatim>\<open>Expression::Compile\<close> or of the coercion
  helper: the failure is an internal assertion failure for every literal, context,
  operator and sibling argument, and no \<^verbatim>\<open>CompileError\<close> is produced.
\<close>

theorem string_literal_use_asserts:
  "StringLiteral_Evaluate s ctx = Inl AssertionFailure
   \<and> StringLiteral_Compile s lctx = Inl AssertionFailure
   \<and> ValueCast_IfNeeded (StringExpression s) = Inl AssertionFailure
   \<and> BooleanCast_IfNeeded (StringExpression s) = Inl AssertionFailure
   \<and> new_UnaryValueExpression op (StringExpression s) loc = Inl AssertionFailure
   \<and> new_BinaryValueExpression op (StringExpression s) exp2 = Inl AssertionFailure
   \<and> new_BinaryValueExpression op exp1 (StringExpression s) = Inl AssertionFailure
   \<and> new_ArrayAccessExpression name (StringExpression s) loc = Inl AssertionFailure
   \<and> new_AssignmentExpression left (StringExpression s) = Inl AssertionFailure
   \<and> new_ReturnStatement (StringExpression s) loc = Inl AssertionFailure
   \<and> new_RelationalExpression op (StringExpression s) exp2 = Inl AssertionFailure
   \<and> new_RelationalExpression op exp1 (StringExpression s) = Inl AssertionFailure
   \<and> new_UnaryBooleanExpression op (StringExpression s) loc = Inl AssertionFailure
   \<and> new_BinaryBooleanExpression op (StringExpression s) exp2 = Inl AssertionFailure
   \<and> new_BinaryBooleanExpression op exp1 (StringExpression s) = Inl AssertionFailure
   \<and> new_IfElseStatement (StringExpression s) then_block else_block loc = Inl AssertionFailure
   \<and> new_WhileStatement (StringExpression s) body loc = Inl AssertionFailure
   \<and> new_ForStatement initializer (StringExpression s) step body loc = Inl AssertionFailure
   \<and> SetExpression (SwitchStatement old case_values case_bodies loc) (StringExpression s)
         = Inl AssertionFailure
   \<and> \<not> is_CompileError (Inl AssertionFailure :: error + Code \<times> Symbol)"
  by (simp add: StringLiteral_Evaluate_def StringLiteral_Compile_def
        string_literal_binary_value
        string_literal_relational string_literal_binary_boolean
        new_UnaryValueExpression_def new_ArrayAccessExpression_def
        new_AssignmentExpression_def new_ReturnStatement_def new_UnaryBooleanExpression_def
        new_IfElseStatement_def new_WhileStatement_def new_ForStatement_def)

text \<open>
  The claim as the spec states it fails: returning a string literal from a function,
  evaluating one and compiling one as a statement end in the assertion failure and not
  in a \<^verbatim>\<open>CompileError\<close>.
\<close>

theorem string_literal_no_CompileError:
  "\<not> is_CompileError (new_ReturnStatement (StringExpression sample_literal) sample_location)
   \<and> \<not> is_CompileError
         (StringLiteral_Evaluate sample_literal (new_ExpressionContext sample_local_context))
   \<and> \<not> is_CompileError (StringLiteral_Compile sample_literal sample_local_context)"
  by (simp add: new_ReturnStatement_def StringLiteral_Evaluate_def StringLiteral_Compile_def)

subsection \<open>The target of an assignment\<close>

lemma LValueExpression_variants:
  "(\<exists>loc. left = LValueExpression loc)
     \<or> (\<exists>name loc. left = VariableExpression name loc)
     \<or> (\<exists>name index loc. left = ArrayAccessExpression name index loc)"
  by (cases left) simp_all

lemma Assign_dispatch_default:
  "(Assign_dispatch left = LValueExpression_Assign) = (\<exists>loc. left = LValueExpression loc)"
  by (cases left) simp_all

text \<open>
  Claim C9, as the code has it. The constructor of \<^verbatim>\<open>AssignmentExpression\<close> stores
  the target it is given, and the target has the static type
  \<^verbatim>\<open>LValueExpression\<close>, so a value expression of another class cannot be the
  target. A target is an instance of \<^verbatim>\<open>LValueExpression\<close> itself, a
  \<^verbatim>\<open>VariableExpression\<close> or an \<^verbatim>\<open>ArrayAccessExpression\<close>. On a
  \<^verbatim>\<open>VariableExpression\<close> and on an \<^verbatim>\<open>ArrayAccessExpression\<close> a call of
  \<^verbatim>\<open>Assign\<close> runs the override of the class. The default of the base class runs
  exactly on an instance of \<^verbatim>\<open>LValueExpression\<close> itself, which the public
  constructor of the class builds, and it fails its \<^verbatim>\<open>assert(false)\<close>.
\<close>

theorem assignment_target_is_lvalue:
  "((new_AssignmentExpression left exp = Inr n)
      = (\<exists>child. value_position exp child
           \<and> n = AssignmentExpression left child
                 (Location_plus (LValueExpression_location left) (Expression_location exp))))
   \<and> ((\<exists>loc. left = LValueExpression loc)
        \<or> (\<exists>name loc. left = VariableExpression name loc)
        \<or> (\<exists>name index loc. left = ArrayAccessExpression name index loc))
   \<and> Assign_dispatch (VariableExpression name loc) = VariableExpression_Assign_body
   \<and> Assign array_assign (VariableExpression name loc) ctx val
       = VariableExpression_Assign name loc ctx val
   \<and> Assign_dispatch (ArrayAccessExpression name index loc) = ArrayAccessExpression_Assign
   \<and> Assign array_assign (ArrayAccessExpression name index loc) ctx val
       = array_assign name index loc ctx val
   \<and> ((Assign_dispatch left = LValueExpression_Assign) = (\<exists>loc. left = LValueExpression loc))
   \<and> Assign_dispatch (LValueExpression loc) = LValueExpression_Assign
   \<and> Assign array_assign (LValueExpression loc) ctx val = Inl AssertionFailure"
  by (intro conjI)
     (rule assignment_node LValueExpression_variants Assign_dispatch_default
        Assign_dispatch.simps Assign.simps
      | simp only: Assign.simps LValueExpression_Assign_default_def)+

text \<open>
  The claim as stated fails: an assignment whose target is an instance of
  \<^verbatim>\<open>LValueExpression\<close> itself is constructed, and \<^verbatim>\<open>Assign\<close> on that target runs
  the default of the base class and fails the assertion.
\<close>

theorem assignment_to_base_lvalue:
  "new_AssignmentExpression (LValueExpression sample_location) (Value sample_constant)
     = Inr (AssignmentExpression (LValueExpression sample_location) sample_constant
              sample_location)
   \<and> Assign_dispatch (LValueExpression sample_location) = LValueExpression_Assign
   \<and> Assign sample_array_assign (LValueExpression sample_location)
        (new_ExpressionContext sample_local_context) (sample_symbol ''t'')
       = Inl AssertionFailure"
  by (simp add: new_AssignmentExpression_def sample_locations Location_plus_same
        LValueExpression_Assign_default_def)

subsection \<open>Operator tables and the main function\<close>

text \<open>
  Claim C8. The three operator tables are exactly: for binary value operators
  \<open>+\<close> to \<open>addu\<close>, \<open>-\<close> to \<open>subu\<close>, \<open>*\<close> to \<open>mul\<close>, \<open>/\<close> to \<open>divu\<close>,
  \<open>&\<close> to \<open>and\<close>, \<open>|\<close> to \<open>or\<close>, \<open>^\<close> to \<open>xor\<close>; for unary value operators
  \<open>+\<close> to \<open>move\<close>, \<open>-\<close> to \<open>negu\<close>, \<open>~\<close> to \<open>not\<close>; for relational operators
  \<open>==\<close> to \<open>beq\<close>, \<open>!=\<close> to \<open>bne\<close>, \<open><\<close> to \<open>blt\<close>, \<open><=\<close> to \<open>ble\<close>,
  \<open>>\<close> to \<open>bgt\<close>, \<open>>=\<close> to \<open>bge\<close>; no table has another key.
\<close>

theorem operator_instruction_tables:
  "dom (map_of BinaryValueExpression_op_to_instruction)
       = {''+'', ''-'', ''*'', ''/'', ''&'', ''|'', ''^''}
   \<and> map_of BinaryValueExpression_op_to_instruction ''+'' = Some ''addu''
   \<and> map_of BinaryValueExpression_op_to_instruction ''-'' = Some ''subu''
   \<and> map_of BinaryValueExpression_op_to_instruction ''*'' = Some ''mul''
   \<and> map_of BinaryValueExpression_op_to_instruction ''/'' = Some ''divu''
   \<and> map_of BinaryValueExpression_op_to_instruction ''&'' = Some ''and''
   \<and> map_of BinaryValueExpression_op_to_instruction ''|'' = Some ''or''
   \<and> map_of BinaryValueExpression_op_to_instruction ''^'' = Some ''xor''
   \<and> dom (map_of UnaryValueExpression_op_to_instruction) = {''+'', ''-'', ''~''}
   \<and> map_of UnaryValueExpression_op_to_instruction ''+'' = Some ''move''
   \<and> map_of UnaryValueExpression_op_to_instruction ''-'' = Some ''negu''
   \<and> map_of UnaryValueExpression_op_to_instruction ''~'' = Some ''not''
   \<and> dom (map_of RelationalExpression_op_to_instruction)
       = {''=='', ''!='', ''<'', ''<='', ''>'', ''>=''}
   \<and> map_of RelationalExpression_op_to_instruction ''=='' = Some ''beq''
   \<and> map_of RelationalExpression_op_to_instruction ''!='' = Some ''bne''
   \<and> map_of RelationalExpression_op_to_instruction ''<'' = Some ''blt''
   \<and> map_of RelationalExpression_op_to_instruction ''<='' = Some ''ble''
   \<and> map_of RelationalExpression_op_to_instruction ''>'' = Some ''bgt''
   \<and> map_of RelationalExpression_op_to_instruction ''>='' = Some ''bge''"
  unfolding BinaryValueExpression_op_to_instruction_def
    UnaryValueExpression_op_to_instruction_def RelationalExpression_op_to_instruction_def
  by (intro conjI) (auto simp: dom_map_of_conv_image_fst)

text \<open>
  Claim C10. Whatever return type, body and location a \<^verbatim>\<open>MainFunctionDefinition\<close>
  is constructed with, it is the \<^verbatim>\<open>FunctionDefinition\<close> constructed with the name
  \<^verbatim>\<open>"main"\<close> and the empty parameter list: its name is \<^verbatim>\<open>main\<close> and it has no
  parameters.
\<close>

theorem main_function_definition:
  "new_MainFunctionDefinition type body loc
       = new_FunctionDefinition ''main'' type [] body loc
   \<and> fn_name (new_MainFunctionDefinition type body loc) = ''main''
   \<and> fn_params (new_MainFunctionDefinition type body loc) = []"
  by (simp add: new_MainFunctionDefinition_def new_FunctionDefinition_def)

subsection \<open>Assigning to a variable\<close>

lemma lookup_scopes_None:
  "(lookup_scopes ss name = None) = (\<forall>scope \<in> set ss. scope name = None)"
  by (induction ss) (auto split: option.splits)

lemma LocalContext_lookup_None:
  "(LocalContext_lookup lc name = None)
     = ((\<forall>scope \<in> set (scopes lc). scope name = None) \<and> symbols (global_context lc) name = None)"
proof (cases "lookup_scopes (scopes lc) name")
  case None
  then show ?thesis
    using lookup_scopes_None [of "scopes lc" name]
    by (simp add: LocalContext_lookup_def)
next
  case (Some symbol)
  then have "\<not> (\<forall>scope \<in> set (scopes lc). scope name = None)"
    using lookup_scopes_None [of "scopes lc" name] by simp
  with Some show ?thesis
    by (simp add: LocalContext_lookup_def)
qed

lemma VariableExpression_Assign_undefined:
  "LocalContext_lookup (local_context ctx) name = None \<Longrightarrow>
     VariableExpression_Assign name loc ctx val
       = Inl (CompileError loc (''undefined symbol '' @ [CHR 0x22] @ name @ [CHR 0x22]))"
  by (simp add: VariableExpression_Assign_def)

lemma VariableExpression_Assign_resolved:
  "LocalContext_lookup (local_context ctx) name = Some symbol \<Longrightarrow>
     VariableExpression_Assign name loc ctx val
       = Inr (Code_plus (LoadValue val ''$v0'') (SaveValue symbol ''$v0''))"
  by (simp add: VariableExpression_Assign_def)

text \<open>
  Claim C7. When no scope of the local-context chain and not the global context binds
  the name of a \<^verbatim>\<open>VariableExpression\<close>, \<^verbatim>\<open>Assign\<close> throws the
  \<^verbatim>\<open>CompileError\<close> with the location of the expression and the message
  \<^verbatim>\<open>undefined symbol "name"\<close>. In every other case the lookup yields a symbol, and
  \<^verbatim>\<open>Assign\<close> returns the code that loads the source value into \<^verbatim>\<open>$v0\<close> followed
  by the code that saves \<^verbatim>\<open>$v0\<close> into that symbol, in this order in both sections.
  A call of the virtual \<^verbatim>\<open>Assign\<close> on a \<^verbatim>\<open>VariableExpression\<close> runs this body.
\<close>

theorem variable_assign:
  "((\<forall>scope \<in> set (scopes (local_context ctx)). scope name = None)
      \<and> symbols (global_context (local_context ctx)) name = None
     \<longrightarrow> VariableExpression_Assign name loc ctx val
           = Inl (CompileError loc (''undefined symbol '' @ [CHR 0x22] @ name @ [CHR 0x22])))
   \<and> (\<not> ((\<forall>scope \<in> set (scopes (local_context ctx)). scope name = None)
           \<and> symbols (global_context (local_context ctx)) name = None)
     \<longrightarrow> (\<exists>symbol. LocalContext_lookup (local_context ctx) name = Some symbol
            \<and> VariableExpression_Assign name loc ctx val
                = Inr (Code_plus (LoadValue val ''$v0'') (SaveValue symbol ''$v0''))
            \<and> text_section (Code_plus (LoadValue val ''$v0'') (SaveValue symbol ''$v0''))
                = text_section (LoadValue val ''$v0'') @ text_section (SaveValue symbol ''$v0'')
            \<and> data_section (Code_plus (LoadValue val ''$v0'') (SaveValue symbol ''$v0''))
                = data_section (LoadValue val ''$v0'') @ data_section (SaveValue symbol ''$v0'')))
   \<and> Assign array_assign (VariableExpression name loc) ctx val
       = VariableExpression_Assign name loc ctx val"
proof (intro conjI impI)
  assume "(\<forall>scope \<in> set (scopes (local_context ctx)). scope name = None)
      \<and> symbols (global_context (local_context ctx)) name = None"
  then have "LocalContext_lookup (local_context ctx) name = None"
    by (simp add: LocalContext_lookup_None)
  then show "VariableExpression_Assign name loc ctx val
           = Inl (CompileError loc (''undefined symbol '' @ [CHR 0x22] @ name @ [CHR 0x22]))"
    by (rule VariableExpression_Assign_undefined)
next
  assume "\<not> ((\<forall>scope \<in> set (scopes (local_context ctx)). scope name = None)
           \<and> symbols (global_context (local_context ctx)) name = None)"
  then have "LocalContext_lookup (local_context ctx) name \<noteq> None"
    by (simp add: LocalContext_lookup_None)
  then obtain symbol where "LocalContext_lookup (local_context ctx) name = Some symbol"
    by auto
  then show "\<exists>symbol. LocalContext_lookup (local_context ctx) name = Some symbol
            \<and> VariableExpression_Assign name loc ctx val
                = Inr (Code_plus (LoadValue val ''$v0'') (SaveValue symbol ''$v0''))
            \<and> text_section (Code_plus (LoadValue val ''$v0'') (SaveValue symbol ''$v0''))
                = text_section (LoadValue val ''$v0'') @ text_section (SaveValue symbol ''$v0'')
            \<and> data_section (Code_plus (LoadValue val ''$v0'') (SaveValue symbol ''$v0''))
                = data_section (LoadValue val ''$v0'') @ data_section (SaveValue symbol ''$v0'')"
    by (simp add: VariableExpression_Assign_resolved Code_plus_def)
next
  show "Assign array_assign (VariableExpression name loc) ctx val
       = VariableExpression_Assign name loc ctx val"
    by simp
qed

theorem variable_assign_witness:
  "VariableExpression_Assign ''y'' sample_location (new_ExpressionContext sample_local_context)
       (sample_symbol ''t'')
     = Inl (CompileError sample_location (''undefined symbol '' @ [CHR 0x22] @ ''y'' @ [CHR 0x22]))
   \<and> VariableExpression_Assign ''x'' sample_location
        (new_ExpressionContext sample_local_context) (sample_symbol ''t'')
     = Inr \<lparr> text_section =
               [CHR 0x09] @ ''lw $v0, t'' @ [CHR 0x0A] @ [CHR 0x09] @ ''sw $v0, x'' @ [CHR 0x0A],
             data_section = [] \<rparr>
   \<and> VariableExpression_Assign ''g'' sample_location
        (new_ExpressionContext sample_local_context) (sample_symbol ''t'')
     = Inr \<lparr> text_section =
               [CHR 0x09] @ ''lw $v0, t'' @ [CHR 0x0A] @ [CHR 0x09] @ ''sw $v0, g'' @ [CHR 0x0A],
             data_section = [] \<rparr>"
  using
    variable_assign [of "new_ExpressionContext sample_local_context" "''y''" sample_location
      "sample_symbol ''t''"]
    variable_assign [of "new_ExpressionContext sample_local_context" "''x''" sample_location
      "sample_symbol ''t''"]
    variable_assign [of "new_ExpressionContext sample_local_context" "''g''" sample_location
      "sample_symbol ''t''"]
  by (simp add: new_ExpressionContext_def sample_local_context_def sample_global_context_def
        LocalContext_lookup_def sample_symbol_def Code_plus_def tab_def)

subsection \<open>A boolean expression as a statement\<close>

lemma to_string_small: "n < 10 \<Longrightarrow> to_string n = [digit_char n]"
  by (subst to_string.simps) simp

lemma to_string_large:
  "\<not> n < 10 \<Longrightarrow> to_string n = to_string (n div 10) @ [digit_char (n mod 10)]"
  by (subst to_string.simps) simp

lemma to_string_nonempty: "to_string n \<noteq> []"
  by (cases "n < 10") (simp_all add: to_string_small to_string_large)

lemma digit_char_inj:
  assumes "a < 10" "b < 10" "digit_char a = digit_char b"
  shows "a = b"
proof -
  have "of_char (digit_char a) = (of_char (digit_char b) :: nat)"
    using assms(3) by simp
  then show ?thesis
    using assms(1,2) by (simp add: digit_char_def)
qed

lemma to_string_inj: "to_string m = to_string n \<Longrightarrow> m = n"
proof (induction m arbitrary: n rule: to_string.induct)
  case (1 m)
  show ?case
  proof (cases "m < 10")
    case small_m: True
    show ?thesis
    proof (cases "n < 10")
      case True
      with small_m "1.prems" show ?thesis
        by (auto simp: to_string_small dest: digit_char_inj)
    next
      case False
      with small_m "1.prems" to_string_nonempty [of "n div 10"] show ?thesis
        by (simp add: to_string_small to_string_large)
    qed
  next
    case large_m: False
    show ?thesis
    proof (cases "n < 10")
      case True
      with large_m "1.prems" to_string_nonempty [of "m div 10"] show ?thesis
        by (simp add: to_string_small to_string_large)
    next
      case False
      with large_m "1.prems" have
        prefix_eq: "to_string (m div 10) = to_string (n div 10)" and
        digit_eq: "digit_char (m mod 10) = digit_char (n mod 10)"
        by (simp_all add: to_string_large)
      from "1.IH" [OF large_m prefix_eq] have "m div 10 = n div 10" .
      moreover from digit_eq have "m mod 10 = n mod 10"
        by (auto dest!: digit_char_inj [rotated 2])
      ultimately show ?thesis
        by (metis div_mult_mod_eq)
    qed
  qed
qed

lemma label_name_inj: "label_name m = label_name n \<Longrightarrow> m = n"
  by (simp add: label_name_def to_string_inj)

lemma label_name_7: "label_name 7 = ''L7''"
  by code_simp

lemma BooleanExpression_Compile_unfold:
  "BooleanExpression_Compile Evaluate ctx =
     (case Evaluate
             (new_ExpressionContext
                (ctx \<lparr> global_context :=
                   (global_context ctx) \<lparr> label_counter := Suc (label_counter (global_context ctx)) \<rparr> \<rparr>))
             (label_name (label_counter (global_context ctx)))
             (label_name (label_counter (global_context ctx))) of
        Inl e \<Rightarrow> Inl e
      | Inr (code, inner') \<Rightarrow>
          Inr (code \<lparr> text_section := text_section code @ tab
                        @ label_name (label_counter (global_context ctx)) @ '':'' @ [CHR 0x0A] \<rparr>,
               local_context inner'))"
  by (simp add: BooleanExpression_Compile_def NewLabel_def Code_plus_string_def
        split: sum.splits prod.splits)

text \<open>
  Claim C5. \<^verbatim>\<open>BooleanExpression::Compile\<close> takes one label \<open>L\<close> from the label
  counter of the global context, which it advances by one; \<open>L\<close> is fresh, since no other
  value of the counter gives the same label. It calls \<^verbatim>\<open>Evaluate\<close> once, on a new
  expression context and with \<open>L\<close> as the true label and as the false label (no other
  value of \<^verbatim>\<open>Evaluate\<close> matters to the result). When the evaluation returns code, the
  result is that code with the definition of \<open>L\<close> (\<^verbatim>\<open>tab + L + ":\n"\<close>) appended
  to the text section right after it, so both exits of the expression lead to the
  instruction that follows; when the evaluation throws, so does \<^verbatim>\<open>Compile\<close>.
\<close>

theorem boolean_expression_compile:
  assumes "L = label_name (label_counter (global_context ctx))"
    and "inner =
      new_ExpressionContext
        (ctx \<lparr> global_context :=
           (global_context ctx) \<lparr> label_counter := Suc (label_counter (global_context ctx)) \<rparr> \<rparr>)"
  shows
    "NewLabel (global_context ctx)
       = (L, (global_context ctx) \<lparr> label_counter := Suc (label_counter (global_context ctx)) \<rparr>)
     \<and> (\<forall>n. n \<noteq> label_counter (global_context ctx) \<longrightarrow> label_name n \<noteq> L)
     \<and> (\<forall>code inner'. Evaluate inner L L = Inr (code, inner') \<longrightarrow>
           BooleanExpression_Compile Evaluate ctx
             = Inr (code \<lparr> text_section := text_section code @ tab @ L @ '':'' @ [CHR 0x0A] \<rparr>,
                    local_context inner'))
     \<and> (\<forall>e. Evaluate inner L L = Inl e \<longrightarrow> BooleanExpression_Compile Evaluate ctx = Inl e)
     \<and> (\<forall>Evaluate'. Evaluate' inner L L = Evaluate inner L L \<longrightarrow>
           BooleanExpression_Compile Evaluate' ctx = BooleanExpression_Compile Evaluate ctx)"
proof (intro conjI allI impI)
  show "NewLabel (global_context ctx)
       = (L, (global_context ctx) \<lparr> label_counter := Suc (label_counter (global_context ctx)) \<rparr>)"
    by (simp add: NewLabel_def assms(1))
next
  fix n
  assume "n \<noteq> label_counter (global_context ctx)"
  then show "label_name n \<noteq> L"
    unfolding assms(1) by (blast dest: label_name_inj)
next
  fix code inner'
  assume "Evaluate inner L L = Inr (code, inner')"
  then show "BooleanExpression_Compile Evaluate ctx
             = Inr (code \<lparr> text_section := text_section code @ tab @ L @ '':'' @ [CHR 0x0A] \<rparr>,
                    local_context inner')"
    unfolding assms by (simp add: BooleanExpression_Compile_unfold)
next
  fix e
  assume "Evaluate inner L L = Inl e"
  then show "BooleanExpression_Compile Evaluate ctx = Inl e"
    unfolding assms by (simp add: BooleanExpression_Compile_unfold)
next
  fix Evaluate'
  assume "Evaluate' inner L L = Evaluate inner L L"
  then show "BooleanExpression_Compile Evaluate' ctx = BooleanExpression_Compile Evaluate ctx"
    unfolding assms by (simp add: BooleanExpression_Compile_unfold)
qed

theorem boolean_expression_compile_witness:
  "label_name (label_counter (global_context sample_local_context)) = ''L7''
   \<and> BooleanExpression_Compile sample_Evaluate sample_local_context
     = Inr (\<lparr> text_section =
                [CHR 0x09] @ ''bne $t0, $0, L7'' @ [CHR 0x0A]
                  @ [CHR 0x09] @ ''j L7'' @ [CHR 0x0A]
                  @ [CHR 0x09] @ ''L7:'' @ [CHR 0x0A],
              data_section = [] \<rparr>,
            sample_local_context
              \<lparr> global_context := sample_global_context \<lparr> label_counter := 8 \<rparr> \<rparr>)
   \<and> label_name 6 \<noteq> ''L7''"
  using boolean_expression_compile
    [of "''L7''" sample_local_context
        "new_ExpressionContext
           (sample_local_context
              \<lparr> global_context := sample_global_context \<lparr> label_counter := 8 \<rparr> \<rparr>)"
        sample_Evaluate]
  by (simp add: label_name_7 sample_local_context_def sample_global_context_def
        sample_Evaluate_def new_ExpressionContext_def tab_def)

subsection \<open>Constant folding\<close>






text \<open>
  The division by zero: the node \<open>1 / 0\<close> is constructed, both its children fold,
  and the node is left unfolded.
\<close>

lemma Precomputable_division_by_zero:
  "new_BinaryValueExpression ''/'' (Value (ConstantExpression 1 sample_location))
       (Value (ConstantExpression 0 sample_location))
     = Inr (BinaryValueExpression ''/'' (ConstantExpression 1 sample_location)
              (ConstantExpression 0 sample_location) sample_location)
   \<and> Precomputable (ConstantExpression 1 sample_location) = Some 1
   \<and> Precomputable (ConstantExpression 0 sample_location) = Some 0
   \<and> Precomputable
        (BinaryValueExpression ''/'' (ConstantExpression 1 sample_location)
           (ConstantExpression 0 sample_location) sample_location) = None"
  by (simp add: new_BinaryValueExpression_def Location_plus_same fold_binary_def)

lemma Precomputable_unsigned_division: "Precomputable (BinaryValueExpression ''/'' (ConstantExpression (- 7) sample_location)
           (ConstantExpression 2 sample_location) sample_location) = Some 2147483644"
  by (simp add: fold_binary_def)

lemma Precomputable_wraps: "Precomputable (BinaryValueExpression ''+'' (ConstantExpression 2147483647 sample_location)
           (ConstantExpression 1 sample_location) sample_location) = Some (- 2147483648)"
  by (simp add: fold_binary_def)

subsection \<open>Folding and the emitted code\<close>








































end
